theory Spec2Isabelle
  imports Main
begin

section \<open>JavaScript values\<close>

text \<open>
  The Soroban service (\<^verbatim>\<open>soroban.service.ts\<close>) is TypeScript: its decoder, its event parser
  and its fee resolver work on values of type \<^verbatim>\<open>unknown\<close> or \<^verbatim>\<open>any\<close> and branch on
  JavaScript truthiness. The values are modelled as a datatype. \<open>JNum n\<close> is the number with
  the integral value \<open>n\<close> (a safe integer, whose \<^verbatim>\<open>String\<close> is its plain decimal form);
  fractional numbers and infinities are not modelled, \<open>JNaN\<close> is. An object is a plain object
  (its prototype is \<^verbatim>\<open>Object.prototype\<close>), given as the list of its own properties, which
  are data properties with string keys; a property is read with \<open>map_of\<close>. No value of the
  datatype is a function, so an own property is never callable. An \<^verbatim>\<open>xdr.ScVal\<close> instance is
  identified by its XDR bytes. Strings are ASCII.
\<close>

datatype scval = ScVal string

datatype jsval =
    JUndefined
  | JNull
  | JBool bool
  | JNum int
  | JNaN
  | JStr string
  | JBigInt int
  | JScVal scval
  | JArr "jsval list"
  | JObj "(string \<times> jsval) list"

text \<open>\<^verbatim>\<open>!value\<close> is true of exactly the falsy values.\<close>

fun truthy :: "jsval \<Rightarrow> bool" where
  "truthy JUndefined = False"
| "truthy JNull = False"
| "truthy (JBool b) = b"
| "truthy (JNum n) = (n \<noteq> 0)"
| "truthy JNaN = False"
| "truthy (JStr s) = (s \<noteq> [])"
| "truthy (JBigInt n) = (n \<noteq> 0)"
| "truthy (JScVal v) = True"
| "truthy (JArr xs) = True"
| "truthy (JObj kvs) = True"

text \<open>\<^verbatim>\<open>a || b\<close>.\<close>

definition js_or :: "jsval \<Rightarrow> jsval \<Rightarrow> jsval" where
  "js_or a b = (if truthy a then a else b)"

text \<open>
  \<^verbatim>\<open>record.key\<close> on a \<^verbatim>\<open>Record<string, unknown>\<close>, and \<^verbatim>\<open>v?.key\<close> on any value: \<^verbatim>\<open>undefined\<close>
  when the property is missing, and for \<open>js_get\<close> also when \<open>v\<close> is not an object (none of
  the keys read by the service is a built-in property of a primitive or of an array).
\<close>

definition rec_get :: "(string \<times> jsval) list \<Rightarrow> string \<Rightarrow> jsval" where
  "rec_get kvs k = (case map_of kvs k of Some v \<Rightarrow> v | None \<Rightarrow> JUndefined)"

definition js_get :: "jsval \<Rightarrow> string \<Rightarrow> jsval" where
  "js_get v k = (case v of JObj kvs \<Rightarrow> rec_get kvs k | _ \<Rightarrow> JUndefined)"

subsection \<open>\<^verbatim>\<open>String(v)\<close>, \<^verbatim>\<open>v.toString()\<close> and \<^verbatim>\<open>BigInt(s)\<close>\<close>

text \<open>
  A thrown value that is not a \<^verbatim>\<open>SorobanException\<close>: an \<^verbatim>\<open>Error\<close> instance (a \<^verbatim>\<open>TypeError\<close> and
  a \<^verbatim>\<open>SyntaxError\<close> are such instances) with its message, or any other value.
\<close>

datatype cause = ErrorObj string | NonError jsval

definition digit_char :: "nat \<Rightarrow> char" where
  "digit_char d = ''0123456789'' ! d"

fun nat_digits :: "nat \<Rightarrow> string" where
  "nat_digits n =
     (if n < 10 then [digit_char n] else nat_digits (n div 10) @ [digit_char (n mod 10)])"

declare nat_digits.simps [simp del]

definition int_toString :: "int \<Rightarrow> string" where
  "int_toString i = (if i < 0 then CHR ''-'' # nat_digits (nat (- i)) else nat_digits (nat i))"

text \<open>
  \<^verbatim>\<open>String(v)\<close>, which can throw (\<open>Inl\<close>). An array joins the strings of its elements with
  commas (\<^verbatim>\<open>null\<close> and \<^verbatim>\<open>undefined\<close> elements as the empty string), from left to right. An
  object is converted by \<^verbatim>\<open>OrdinaryToPrimitive\<close>: without a \<^verbatim>\<open>toString\<close> of its own it prints
  as \<^verbatim>\<open>[object Object]\<close>; with one, which is not callable, the conversion goes on to
  \<^verbatim>\<open>valueOf\<close>, which is not callable either or returns the object, and ends in a
  \<^verbatim>\<open>TypeError\<close> (the message is the one of V8).
\<close>

definition not_primitive :: cause where
  "not_primitive = ErrorObj ''Cannot convert object to primitive value''"

fun js_String :: "jsval \<Rightarrow> cause + string" and js_join :: "jsval list \<Rightarrow> cause + string" where
  "js_String JUndefined = Inr ''undefined''"
| "js_String JNull = Inr ''null''"
| "js_String (JBool b) = Inr (if b then ''true'' else ''false'')"
| "js_String (JNum n) = Inr (int_toString n)"
| "js_String JNaN = Inr ''NaN''"
| "js_String (JStr s) = Inr s"
| "js_String (JBigInt n) = Inr (int_toString n)"
| "js_String (JScVal v) = Inr ''[object Object]''"
| "js_String (JArr xs) = js_join xs"
| "js_String (JObj kvs) =
     (if map_of kvs ''toString'' = None then Inr ''[object Object]'' else Inl not_primitive)"
| "js_join [] = Inr []"
| "js_join [x] = (if x = JUndefined \<or> x = JNull then Inr [] else js_String x)"
| "js_join (x # y # ys) =
     (case (if x = JUndefined \<or> x = JNull then Inr [] else js_String x) of
        Inl c \<Rightarrow> Inl c
      | Inr s \<Rightarrow> (case js_join (y # ys) of Inl c \<Rightarrow> Inl c | Inr t \<Rightarrow> Inr (s @ '','' @ t)))"

text \<open>
  \<^verbatim>\<open>v.toString()\<close> on a value that is neither \<^verbatim>\<open>null\<close> nor \<^verbatim>\<open>undefined\<close>: the string of
  \<^verbatim>\<open>String(v)\<close>, except that an object with a \<^verbatim>\<open>toString\<close> of its own, which is not callable,
  makes the call itself a \<^verbatim>\<open>TypeError\<close>; \<open>callee\<close> is the text of the called expression in
  the message.
\<close>

definition js_toString :: "string \<Rightarrow> jsval \<Rightarrow> cause + string" where
  "js_toString callee v =
     (case v of
        JObj kvs \<Rightarrow>
          (if map_of kvs ''toString'' = None then Inr ''[object Object]''
           else Inl (ErrorObj (callee @ '' is not a function'')))
      | _ \<Rightarrow> js_String v)"

text \<open>
  \<^verbatim>\<open>BigInt(s)\<close> on a string (StringToBigInt of ECMAScript): white space is trimmed, the empty
  string is \<open>0\<close>, then either a prefixed literal (\<^verbatim>\<open>0x\<close>, \<^verbatim>\<open>0o\<close>, \<^verbatim>\<open>0b\<close>, unsigned) or decimal
  digits with an optional sign; anything else is a SyntaxError (\<open>None\<close>).
\<close>

definition is_ws :: "char \<Rightarrow> bool" where
  "is_ws c = (c \<in> set [CHR 0x09, CHR 0x0A, CHR 0x0B, CHR 0x0C, CHR 0x0D, CHR '' ''])"

definition js_trim :: "string \<Rightarrow> string" where
  "js_trim s = rev (dropWhile is_ws (rev (dropWhile is_ws s)))"

definition digit_value :: "char \<Rightarrow> nat option" where
  "digit_value c = map_of
     [(CHR ''0'', 0), (CHR ''1'', 1), (CHR ''2'', 2), (CHR ''3'', 3), (CHR ''4'', 4),
      (CHR ''5'', 5), (CHR ''6'', 6), (CHR ''7'', 7), (CHR ''8'', 8), (CHR ''9'', 9),
      (CHR ''a'', 10), (CHR ''b'', 11), (CHR ''c'', 12), (CHR ''d'', 13), (CHR ''e'', 14),
      (CHR ''f'', 15), (CHR ''A'', 10), (CHR ''B'', 11), (CHR ''C'', 12), (CHR ''D'', 13),
      (CHR ''E'', 14), (CHR ''F'', 15)] c"

fun parse_digits :: "nat \<Rightarrow> string \<Rightarrow> nat \<Rightarrow> nat option" where
  "parse_digits r [] acc = Some acc"
| "parse_digits r (c # cs) acc =
     (case digit_value c of
        None \<Rightarrow> None
      | Some d \<Rightarrow> if d < r then parse_digits r cs (acc * r + d) else None)"

definition parse_radix :: "nat \<Rightarrow> string \<Rightarrow> int option" where
  "parse_radix r ds = (if ds = [] then None else map_option int (parse_digits r ds 0))"

definition StringToBigInt :: "string \<Rightarrow> int option" where
  "StringToBigInt s =
     (case js_trim s of
        [] \<Rightarrow> Some 0
      | c # cs \<Rightarrow>
          if c = CHR ''0'' \<and> cs \<noteq> [] \<and> hd cs \<in> set ''xX'' then parse_radix 16 (tl cs)
          else if c = CHR ''0'' \<and> cs \<noteq> [] \<and> hd cs \<in> set ''oO'' then parse_radix 8 (tl cs)
          else if c = CHR ''0'' \<and> cs \<noteq> [] \<and> hd cs \<in> set ''bB'' then parse_radix 2 (tl cs)
          else if c = CHR ''-'' then map_option uminus (parse_radix 10 cs)
          else if c = CHR ''+'' then parse_radix 10 cs
          else parse_radix 10 (c # cs))"

section \<open>Errors\<close>

text \<open>
  What a \<^verbatim>\<open>throw\<close> or a rejected promise carries: a \<^verbatim>\<open>SorobanException\<close> or another \<open>cause\<close>.
  \<^verbatim>\<open>SorobanException\<close> is declared in \<^verbatim>\<open>common/exceptions\<close>, which is not among the sources;
  its constructor is used as \<^verbatim>\<open>(message, contractId?, method?, details?)\<close>, an argument
  that the call leaves out is \<open>None\<close> (\<open>NoDetails\<close>), and it is taken to extend \<^verbatim>\<open>Error\<close>.
\<close>

record send_response =
  send_status :: string
  send_hash :: "string option"

datatype details = NoDetails | SendDetails send_response | CauseDetails cause

datatype thrown =
    SorobanException string "string option" "string option" details
  | Other cause

fun exn_message :: "thrown \<Rightarrow> string option" where
  "exn_message (SorobanException m c k d) = Some m"
| "exn_message (Other (ErrorObj m)) = Some m"
| "exn_message (Other (NonError v)) = None"

fun exn_contractId :: "thrown \<Rightarrow> string option" where
  "exn_contractId (SorobanException m c k d) = c"
| "exn_contractId (Other x) = None"

fun exn_method :: "thrown \<Rightarrow> string option" where
  "exn_method (SorobanException m c k d) = k"
| "exn_method (Other x) = None"

fun is_SorobanException :: "thrown \<Rightarrow> bool" where
  "is_SorobanException (SorobanException m c k d) = True"
| "is_SorobanException (Other x) = False"

section \<open>The Stellar SDK and the configuration, as parameters\<close>

text \<open>
  The functions of \<^verbatim>\<open>@stellar/stellar-sdk\<close> that the service calls and that can throw are
  parameters of the model (\<open>Inl\<close>: what they throw). \<^verbatim>\<open>BASE_FEE\<close> is the SDK's constant
  \<^verbatim>\<open>"100"\<close>. \<^verbatim>\<open>StellarConfigService\<close> is not among the sources; the two settings the service
  reads are parameters.
\<close>

record keypair =
  kp_secret :: string
  kp_publicKey :: string

record sdk =
  fromXDR :: "string \<Rightarrow> cause + scval"
  scValToNative :: "scval \<Rightarrow> cause + jsval"
  nativeToScVal :: "jsval \<Rightarrow> cause + scval"
  Keypair_fromSecret :: "string \<Rightarrow> cause + keypair"
  Contract_new :: "string \<Rightarrow> cause + unit"

record config =
  apiTimeout :: int
  networkPassphrase :: string

definition BASE_FEE :: string where
  "BASE_FEE = ''100''"

section \<open>The value decoder and the event decoder\<close>

text \<open>\<^verbatim>\<open>parseScVal\<close> (lines 268-286).\<close>

definition parseScVal :: "sdk \<Rightarrow> jsval \<Rightarrow> thrown + jsval" where
  "parseScVal k v =
     (if \<not> truthy v then Inr JUndefined
      else case v of
        JScVal sv \<Rightarrow>
          (case scValToNative k sv of Inl c \<Rightarrow> Inl (Other c) | Inr n \<Rightarrow> Inr n)
      | JStr s \<Rightarrow>
          (case fromXDR k s of
             Inl c \<Rightarrow> Inr v
           | Inr sv \<Rightarrow> (case scValToNative k sv of Inl c \<Rightarrow> Inr v | Inr n \<Rightarrow> Inr n))
      | _ \<Rightarrow> Inr v)"

text \<open>\<^verbatim>\<open>xs.map(f)\<close> where \<open>f\<close> can throw: left to right, the first throw ends it.\<close>

fun map_throw :: "('a \<Rightarrow> thrown + 'b) \<Rightarrow> 'a list \<Rightarrow> thrown + 'b list" where
  "map_throw f [] = Inr []"
| "map_throw f (x # xs) =
     (case f x of
        Inl e \<Rightarrow> Inl e
      | Inr y \<Rightarrow> (case map_throw f xs of Inl e \<Rightarrow> Inl e | Inr ys \<Rightarrow> Inr (y # ys)))"

record contract_event =
  ev_type :: string
  ev_contractId :: jsval
  ev_topics :: "jsval list option"
  ev_data :: jsval

type_synonym raw_event = "(string \<times> jsval) list"

text \<open>
  One element of \<^verbatim>\<open>parseEvents\<close> (lines 291-302): the object literal evaluates its fields in
  order, \<^verbatim>\<open>type\<close> first and \<^verbatim>\<open>topics\<close> before \<^verbatim>\<open>data\<close>, and the first throw ends it.
  \<open>None\<close> for \<open>ev_topics\<close> is \<^verbatim>\<open>undefined\<close>.
\<close>

definition parseEvent :: "sdk \<Rightarrow> raw_event \<Rightarrow> thrown + contract_event" where
  "parseEvent k event =
     (case js_String (js_or (rec_get event ''type'') (JStr ''unknown'')) of
        Inl c \<Rightarrow> Inl (Other c)
      | Inr ty \<Rightarrow>
          (let cid = js_or (rec_get event ''contractId'') (rec_get event ''contract_id'');
               topic = js_or (rec_get event ''topic'') (rec_get event ''topics'')
           in case (case topic of
                      JArr ts \<Rightarrow> map_sum id Some (map_throw (parseScVal k) ts)
                    | _ \<Rightarrow> Inr None) of
                Inl e \<Rightarrow> Inl e
              | Inr topics \<Rightarrow>
                  (case parseScVal k (js_or (rec_get event ''data'') (rec_get event ''value'')) of
                     Inl e \<Rightarrow> Inl e
                   | Inr d \<Rightarrow>
                       Inr \<lparr>ev_type = ty, ev_contractId = cid, ev_topics = topics, ev_data = d\<rparr>)))"

definition parseEvents :: "sdk \<Rightarrow> raw_event list \<Rightarrow> thrown + contract_event list" where
  "parseEvents k events = map_throw (parseEvent k) events"

section \<open>Fees\<close>

text \<open>
  \<^verbatim>\<open>toBigInt\<close> (lines 359-365): \<^verbatim>\<open>String\<close> can throw, and \<^verbatim>\<open>BigInt\<close> throws a SyntaxError on a
  string it cannot read.
\<close>

definition toBigInt :: "jsval \<Rightarrow> thrown + int" where
  "toBigInt v =
     (case v of
        JBigInt n \<Rightarrow> Inr n
      | _ \<Rightarrow>
          (case js_String v of
             Inl c \<Rightarrow> Inl (Other c)
           | Inr s \<Rightarrow>
               (case StringToBigInt s of
                  None \<Rightarrow> Inl (Other (ErrorObj (''Cannot convert '' @ s @ '' to a BigInt'')))
                | Some n \<Rightarrow> Inr n)))"

text \<open>\<^verbatim>\<open>resolveInclusionFee\<close> (lines 341-357).\<close>

definition resolveInclusionFee :: "jsval \<Rightarrow> thrown + int" where
  "resolveInclusionFee feeStats =
     (let inclusionFee =
            js_or (js_or (js_get feeStats ''sorobanInclusionFee'') (js_get feeStats ''inclusionFee''))
                  (js_get feeStats ''feeCharged'');
          feeCandidate =
            js_or (js_or (js_or (js_get inclusionFee ''p95'') (js_get inclusionFee ''max''))
                         (js_get inclusionFee ''mode''))
                  (js_get inclusionFee ''min'')
      in if feeCandidate \<noteq> JUndefined then toBigInt feeCandidate else toBigInt (JStr BASE_FEE))"

section \<open>The RPC endpoint, the clock and the remote calls\<close>

record account =
  acc_id :: string
  acc_sequence :: string

text \<open>\<open>InvokeContract c m args\<close> is \<^verbatim>\<open>new Contract(c).call(m, ...args)\<close>.\<close>

datatype operation = InvokeContract string string "scval list"

record transaction =
  tx_source :: account
  tx_fee :: string
  tx_networkPassphrase :: string
  tx_operation :: operation
  tx_timeout :: nat
  tx_signatures :: "string list"

text \<open>
  A simulation response: an error (\<^verbatim>\<open>isSimulationError\<close>: it has an \<^verbatim>\<open>error\<close> field) or a
  success with \<^verbatim>\<open>minResourceFee\<close> and, when \<^verbatim>\<open>result\<close> is present, \<^verbatim>\<open>result.retval\<close>.
\<close>

record sim_success =
  sim_minResourceFee :: jsval
  sim_result :: "jsval option"

datatype simulation = SimulationError string | SimulationSuccess sim_success

text \<open>
  The status of a \<^verbatim>\<open>GetTransactionResponse\<close> is the SDK's string enum; the service also tests
  for \<^verbatim>\<open>'PENDING'\<close> and for a missing status (\<open>None\<close>).
\<close>

datatype transaction_status = SUCCESS | FAILED | NOT_FOUND | PENDING

fun status_string :: "transaction_status \<Rightarrow> string" where
  "status_string SUCCESS = ''SUCCESS''"
| "status_string FAILED = ''FAILED''"
| "status_string NOT_FOUND = ''NOT_FOUND''"
| "status_string PENDING = ''PENDING''"

record tx_response =
  tx_status :: "transaction_status option"
  tx_feeCharged :: jsval
  tx_errorResultXdr :: jsval
  tx_resultXdr :: jsval
  tx_events :: "raw_event list option"

text \<open>
  Every remote call and every sleep is recorded, with the time at which it starts, in the
  trace of the world; the clock is \<^verbatim>\<open>Date.now()\<close> in milliseconds. Time passes only while the
  service awaits a remote call or a timer.
\<close>

datatype effect =
    GetAccount string
  | SimulateTransaction transaction
  | PrepareTransaction transaction
  | SendTransaction transaction
  | GetTransaction string
  | GetFeeStats
  | Sleep int

record world =
  clock :: int
  trace :: "(int \<times> effect) list"

text \<open>
  A promise returned by the endpoint settles after some milliseconds, resolved (\<open>Inr\<close>) or
  rejected (\<open>Inl\<close>), or never settles. The endpoint answers from the request and from the
  world in which it is called (the time and the calls made so far), so a fake endpoint can
  answer \<^verbatim>\<open>PENDING\<close> twice and then \<^verbatim>\<open>SUCCESS\<close>. \<^verbatim>\<open>getFeeStats\<close> may be missing.
\<close>

datatype 'a reply = Settles nat "cause + 'a" | Never

record server =
  rpc_getAccount :: "string \<Rightarrow> world \<Rightarrow> account reply"
  rpc_simulateTransaction :: "transaction \<Rightarrow> world \<Rightarrow> simulation reply"
  rpc_prepareTransaction :: "transaction \<Rightarrow> world \<Rightarrow> transaction reply"
  rpc_sendTransaction :: "transaction \<Rightarrow> world \<Rightarrow> send_response reply"
  rpc_getTransaction :: "string \<Rightarrow> world \<Rightarrow> tx_response reply"
  rpc_getFeeStats :: "(world \<Rightarrow> jsval reply) option"

definition remote :: "effect \<Rightarrow> world \<Rightarrow> world" where
  "remote e w = w\<lparr>trace := trace w @ [(clock w, e)]\<rparr>"

text \<open>\<^verbatim>\<open>await new Promise((resolve) => setTimeout(resolve, delayMs))\<close>, in simulated time.\<close>

definition sleep :: "int \<Rightarrow> world \<Rightarrow> world" where
  "sleep delayMs w = w\<lparr>clock := clock w + delayMs, trace := trace w @ [(clock w, Sleep delayMs)]\<rparr>"

text \<open>\<^verbatim>\<open>timeoutMs || this.stellarConfig.apiTimeout\<close>.\<close>

definition timeout_budget :: "config \<Rightarrow> int option \<Rightarrow> int" where
  "timeout_budget cfg timeoutMs =
     (case timeoutMs of None \<Rightarrow> apiTimeout cfg | Some t \<Rightarrow> if t = 0 then apiTimeout cfg else t)"

text \<open>
  \<^verbatim>\<open>withTimeout\<close> (lines 367-392): the promise races a timer. Node's \<^verbatim>\<open>setTimeout\<close> sets a
  delay below 1 or above 2147483647 to one millisecond, so a promise that has settled
  already always wins; a promise that settles after \<open>d\<close> milliseconds wins when \<open>d\<close> is
  below the timer's delay.
\<close>

definition timer_delay :: "int \<Rightarrow> int" where
  "timer_delay timeout = (if timeout < 1 \<or> 2147483647 < timeout then 1 else timeout)"

definition timed_out :: "string \<Rightarrow> int \<Rightarrow> thrown" where
  "timed_out label timeout =
     SorobanException (''Soroban '' @ label @ '' timed out after '' @ int_toString timeout @ ''ms'')
       None None NoDetails"

definition withTimeout ::
  "config \<Rightarrow> 'a reply \<Rightarrow> string \<Rightarrow> int option \<Rightarrow> world \<Rightarrow> (thrown + 'a) \<times> world" where
  "withTimeout cfg promise label timeoutMs w =
     (let timeout = timeout_budget cfg timeoutMs
      in case promise of
           Never \<Rightarrow> (Inl (timed_out label timeout), w\<lparr>clock := clock w + timer_delay timeout\<rparr>)
         | Settles d r \<Rightarrow>
             if int d < timer_delay timeout
             then (case r of Inl c \<Rightarrow> Inl (Other c) | Inr v \<Rightarrow> Inr v, w\<lparr>clock := clock w + int d\<rparr>)
             else (Inl (timed_out label timeout), w\<lparr>clock := clock w + timer_delay timeout\<rparr>))"

text \<open>Sequencing of awaited steps: a throw ends the sequence.\<close>

definition andThen ::
  "(thrown + 'a) \<times> world \<Rightarrow> ('a \<Rightarrow> world \<Rightarrow> (thrown + 'b) \<times> world) \<Rightarrow> (thrown + 'b) \<times> world" where
  "andThen m f = (case m of (Inl e, w) \<Rightarrow> (Inl e, w) | (Inr a, w) \<Rightarrow> f a w)"

section \<open>The service\<close>

text \<open>\<^verbatim>\<open>simulateTransaction\<close> (lines 165-180).\<close>

definition simulateTransaction ::
  "config \<Rightarrow> server \<Rightarrow> transaction \<Rightarrow> world \<Rightarrow> (thrown + sim_success) \<times> world" where
  "simulateTransaction cfg srv transaction w =
     andThen
       (withTimeout cfg (rpc_simulateTransaction srv transaction (remote (SimulateTransaction transaction) w))
          ''simulateTransaction'' None (remote (SimulateTransaction transaction) w))
       (\<lambda>simulation w.
          case simulation of
            SimulationError err \<Rightarrow>
              (Inl (SorobanException (''Simulation failed: '' @ err) None None NoDetails), w)
          | SimulationSuccess s \<Rightarrow> (Inr s, w))"

text \<open>\<^verbatim>\<open>getContractEvents\<close> (lines 182-199).\<close>

definition getContractEvents ::
  "config \<Rightarrow> sdk \<Rightarrow> server \<Rightarrow> string \<Rightarrow> world \<Rightarrow> (thrown + contract_event list) \<times> world" where
  "getContractEvents cfg k srv txHash w =
     (if txHash = [] then (Inr [], w)
      else andThen
        (withTimeout cfg (rpc_getTransaction srv txHash (remote (GetTransaction txHash) w))
           ''getTransaction'' None (remote (GetTransaction txHash) w))
        (\<lambda>transaction w.
           if tx_status transaction \<noteq> Some SUCCESS then (Inr [], w)
           else (parseEvents k (case tx_events transaction of None \<Rightarrow> [] | Some es \<Rightarrow> es), w)))"

text \<open>
  The transaction that \<^verbatim>\<open>TransactionBuilder\<close> builds in \<^verbatim>\<open>invokeContract\<close> (lines 83-89) and
  in \<^verbatim>\<open>estimateFees\<close> (lines 203-209), and \<^verbatim>\<open>getSimulationAccount\<close> (lines 334-339).
\<close>

definition build_transaction :: "config \<Rightarrow> account \<Rightarrow> operation \<Rightarrow> transaction" where
  "build_transaction cfg acc operation =
     \<lparr>tx_source = acc, tx_fee = BASE_FEE, tx_networkPassphrase = networkPassphrase cfg,
      tx_operation = operation, tx_timeout = 30, tx_signatures = []\<rparr>"

definition getSimulationAccount :: account where
  "getSimulationAccount =
     \<lparr>acc_id = ''GAAAAAAAAAAAAAAAAAAAAAAAAAAAAAAAAAAAAAAAAAAAAAAAAAAAAWHF'', acc_sequence = ''0''\<rparr>"

record fee_estimate =
  fe_inclusionFee :: string
  fe_resourceFee :: string
  fe_totalFee :: string

text \<open>
  \<^verbatim>\<open>estimateFees\<close> (lines 201-229). When the endpoint has no \<^verbatim>\<open>getFeeStats\<close> the awaited
  promise is \<^verbatim>\<open>Promise.resolve({})\<close> and no remote call is made.
\<close>

definition estimateFees ::
  "config \<Rightarrow> server \<Rightarrow> operation \<Rightarrow> world \<Rightarrow> (thrown + fee_estimate) \<times> world" where
  "estimateFees cfg srv operation w =
     andThen (simulateTransaction cfg srv (build_transaction cfg getSimulationAccount operation) w)
       (\<lambda>simulation w.
     andThen (toBigInt (js_or (sim_minResourceFee simulation) (JStr ''0'')), w)
       (\<lambda>resourceFee w.
     andThen
       (case rpc_getFeeStats srv of
          Some getFeeStats \<Rightarrow>
            withTimeout cfg (getFeeStats (remote GetFeeStats w)) ''getFeeStats'' None (remote GetFeeStats w)
        | None \<Rightarrow> withTimeout cfg (Settles 0 (Inr (JObj []))) ''getFeeStats'' None w)
       (\<lambda>feeStats w.
     andThen (resolveInclusionFee (js_or feeStats (JObj [])), w)
       (\<lambda>inclusionFee w.
          (Inr \<lparr>fe_inclusionFee = int_toString inclusionFee,
                fe_resourceFee = int_toString resourceFee,
                fe_totalFee = int_toString (inclusionFee + resourceFee)\<rparr>, w)))))"

text \<open>
  \<^verbatim>\<open>waitForTransaction\<close> (lines 305-332): the \<^verbatim>\<open>while\<close> loop, with the deadline and the
  attempt counter as arguments. Every round that does not return sleeps at least two
  seconds, so the loop ends.
\<close>

lemma timer_delay_pos [simp]: "0 < timer_delay t" "0 \<le> timer_delay t" "1 \<le> timer_delay t"
  by (simp_all add: timer_delay_def)

lemma timer_delay_in_range [simp]: "1 \<le> t \<Longrightarrow> t \<le> 2147483647 \<Longrightarrow> timer_delay t = t"
  by (simp add: timer_delay_def)

lemma withTimeout_clock:
  "withTimeout cfg promise label timeoutMs w = (r, w') \<Longrightarrow> clock w \<le> clock w'"
  by (auto simp: withTimeout_def Let_def split: reply.splits if_splits)

lemma clock_remote [simp]: "clock (remote e w) = clock w"
  by (simp add: remote_def)

lemma clock_sleep [simp]: "clock (sleep d w) = clock w + d"
  by (simp add: sleep_def)

function waitForTransaction_loop ::
  "config \<Rightarrow> server \<Rightarrow> string \<Rightarrow> int option \<Rightarrow> int \<Rightarrow> nat \<Rightarrow> world \<Rightarrow> (thrown + tx_response) \<times> world" where
  "waitForTransaction_loop cfg srv txHash timeoutMs deadline attempt w =
     (if clock w < deadline then
        (case withTimeout cfg (rpc_getTransaction srv txHash (remote (GetTransaction txHash) w))
                ''getTransaction'' timeoutMs (remote (GetTransaction txHash) w) of
           (Inl e, w') \<Rightarrow> (Inl e, w')
         | (Inr response, w') \<Rightarrow>
             if tx_status response \<noteq> None \<and> tx_status response \<noteq> Some PENDING
             then (Inr response, w')
             else waitForTransaction_loop cfg srv txHash timeoutMs deadline (attempt + 1)
                    (sleep (min (2000 * (int attempt + 1)) 8000) w'))
      else (Inl (SorobanException ''Timed out waiting for Soroban transaction'' None None NoDetails), w))"
  by pat_completeness auto
termination
proof (relation "measure (\<lambda>(cfg, srv, txHash, timeoutMs, deadline, attempt, w). nat (deadline - clock w))")
  show "wf (measure (\<lambda>(cfg, srv, txHash, timeoutMs, deadline, attempt, w). nat (deadline - clock w)))"
    by simp
next
  fix cfg :: config and srv :: server and txHash :: string and timeoutMs :: "int option"
    and deadline :: int and attempt :: nat and w :: world
    and x :: "thrown + tx_response" and y :: world and b :: tx_response
  assume before: "clock w < deadline"
    and call: "(x, y) = withTimeout cfg (rpc_getTransaction srv txHash (remote (GetTransaction txHash) w))
                 ''getTransaction'' timeoutMs (remote (GetTransaction txHash) w)"
  from call have "clock (remote (GetTransaction txHash) w) \<le> clock y"
    using withTimeout_clock [of cfg _ _ timeoutMs "remote (GetTransaction txHash) w" x y] by simp
  then have "clock w \<le> clock y" by simp
  with before show
    "((cfg, srv, txHash, timeoutMs, deadline, attempt + 1, sleep (min (2000 * (int attempt + 1)) 8000) y),
      (cfg, srv, txHash, timeoutMs, deadline, attempt, w))
     \<in> measure (\<lambda>(cfg, srv, txHash, timeoutMs, deadline, attempt, w). nat (deadline - clock w))"
    by simp
qed

declare waitForTransaction_loop.simps [simp del]

definition waitForTransaction ::
  "config \<Rightarrow> server \<Rightarrow> string \<Rightarrow> int option \<Rightarrow> world \<Rightarrow> (thrown + tx_response) \<times> world" where
  "waitForTransaction cfg srv txHash timeoutMs w =
     waitForTransaction_loop cfg srv txHash timeoutMs (clock w + timeout_budget cfg timeoutMs) 0 w"

text \<open>\<^verbatim>\<open>toScVal\<close> (lines 243-266) and \<^verbatim>\<open>buildContractOperation\<close> (lines 231-241).\<close>

definition toScVal :: "sdk \<Rightarrow> jsval \<Rightarrow> thrown + scval" where
  "toScVal k param =
     (case param of
        JScVal sv \<Rightarrow> Inr sv
      | _ \<Rightarrow>
          (case (case param of JObj kvs \<Rightarrow> map_of kvs ''scVal'' | _ \<Rightarrow> None) of
             Some (JScVal sv) \<Rightarrow> Inr sv
           | _ \<Rightarrow>
               (case nativeToScVal k param of
                  Inr sv \<Rightarrow> Inr sv
                | Inl (ErrorObj m) \<Rightarrow> Inl (SorobanException m None None NoDetails)
                | Inl (NonError v) \<Rightarrow>
                    Inl (SorobanException ''Invalid contract parameter'' None None NoDetails))))"

definition buildContractOperation :: "sdk \<Rightarrow> string \<Rightarrow> string \<Rightarrow> jsval list \<Rightarrow> thrown + operation" where
  "buildContractOperation k contractId meth params =
     (case Contract_new k contractId of
        Inl c \<Rightarrow> Inl (Other c)
      | Inr u \<Rightarrow>
          (case map_throw (toScVal k) params of
             Inl e \<Rightarrow> Inl e
           | Inr scVals \<Rightarrow> Inr (InvokeContract contractId meth scVals)))"

record invoke_options =
  sourceSecret :: "string option"
  sourceAccount :: "string option"
  timeoutMs :: "int option"

record contract_result =
  cr_success :: bool
  cr_hash :: "string option"
  cr_status :: "string option"
  cr_result :: jsval
  cr_events :: "contract_event list"
  cr_feeCharged :: "string option"
  cr_error :: "string option"

text \<open>
  \<^verbatim>\<open>v?.toString()\<close>, and \<^verbatim>\<open>a || b\<close> on optional strings. \<open>error_text\<close> is the \<^verbatim>\<open>error\<close> field
  of a result that is not a success (lines 142-144): the second \<^verbatim>\<open>toString\<close> is called only
  when the first string is \<^verbatim>\<open>undefined\<close> or empty.
\<close>

definition opt_toString :: "string \<Rightarrow> jsval \<Rightarrow> thrown + string option" where
  "opt_toString callee v =
     (if v = JUndefined \<or> v = JNull then Inr None
      else map_sum Other Some (js_toString callee v))"

definition str_or :: "string option \<Rightarrow> string option \<Rightarrow> string option" where
  "str_or a b = (case a of Some s \<Rightarrow> if s \<noteq> [] then a else b | None \<Rightarrow> b)"

definition error_text :: "tx_response \<Rightarrow> thrown + string option" where
  "error_text confirmed =
     (case opt_toString ''confirmed.errorResultXdr?.toString'' (tx_errorResultXdr confirmed) of
        Inl e \<Rightarrow> Inl e
      | Inr a \<Rightarrow>
          if a \<noteq> None \<and> a \<noteq> Some [] then Inr a
          else (case opt_toString ''confirmed.resultXdr?.toString'' (tx_resultXdr confirmed) of
                  Inl e \<Rightarrow> Inl e
                | Inr b \<Rightarrow> Inr (str_or b (map_option status_string (tx_status confirmed)))))"

definition sim_retval :: "sim_success \<Rightarrow> jsval" where
  "sim_retval simulation = (case sim_result simulation of None \<Rightarrow> JUndefined | Some v \<Rightarrow> v)"

definition sign :: "keypair \<Rightarrow> transaction \<Rightarrow> transaction" where
  "sign kp prepared = prepared\<lparr>tx_signatures := tx_signatures prepared @ [kp_publicKey kp]\<rparr>"

text \<open>
  The result of a confirmed invocation (lines 129-145): the simulated return value is
  decoded first, then the fields are evaluated in order, and either \<^verbatim>\<open>toString\<close> call can
  throw.
\<close>

definition build_result ::
  "sdk \<Rightarrow> sim_success \<Rightarrow> string \<Rightarrow> tx_response \<Rightarrow> contract_event list \<Rightarrow> thrown + contract_result" where
  "build_result k simulation txHash confirmed events =
     (case parseScVal k (sim_retval simulation) of
        Inl e \<Rightarrow> Inl e
      | Inr result \<Rightarrow>
          (case opt_toString ''confirmed.feeCharged?.toString'' (tx_feeCharged confirmed) of
             Inl e \<Rightarrow> Inl e
           | Inr feeCharged \<Rightarrow>
               (case (if tx_status confirmed = Some SUCCESS then Inr None else error_text confirmed) of
                  Inl e \<Rightarrow> Inl e
                | Inr error \<Rightarrow>
                    Inr \<lparr>cr_success = (tx_status confirmed = Some SUCCESS),
                         cr_hash = Some txHash,
                         cr_status = map_option status_string (tx_status confirmed),
                         cr_result = result,
                         cr_events = events,
                         cr_feeCharged = feeCharged,
                         cr_error = error\<rparr>)))"

text \<open>
  The \<^verbatim>\<open>try\<close> block of \<^verbatim>\<open>invokeContract\<close> (lines 69-145), in two parts. The second part
  (lines 92-145) is what follows the simulation: prepare, sign, submit, check the
  submission, await the confirmation, read the events and build the result.
\<close>

definition submit_and_confirm ::
  "config \<Rightarrow> sdk \<Rightarrow> server \<Rightarrow> string \<Rightarrow> string \<Rightarrow> invoke_options \<Rightarrow> keypair \<Rightarrow> transaction
   \<Rightarrow> sim_success \<Rightarrow> world \<Rightarrow> (thrown + contract_result) \<times> world" where
  "submit_and_confirm cfg k srv contractId meth options sourceKeypair transaction simulation w =
     andThen
       (withTimeout cfg
          (rpc_prepareTransaction srv transaction (remote (PrepareTransaction transaction) w))
          ''prepareTransaction'' (timeoutMs options) (remote (PrepareTransaction transaction) w))
       (\<lambda>prepared w.
     andThen
       (withTimeout cfg
          (rpc_sendTransaction srv (sign sourceKeypair prepared)
             (remote (SendTransaction (sign sourceKeypair prepared)) w))
          ''sendTransaction'' (timeoutMs options)
          (remote (SendTransaction (sign sourceKeypair prepared)) w))
       (\<lambda>sendResponse w.
          if send_status sendResponse = ''ERROR''
          then (Inl (SorobanException ''Soroban transaction rejected''
                       (Some contractId) (Some meth) (SendDetails sendResponse)), w)
          else (case send_hash sendResponse of
                  None \<Rightarrow>
                    (Inl (SorobanException ''Soroban transaction did not return a hash''
                            (Some contractId) (Some meth) (SendDetails sendResponse)), w)
                | Some txHash \<Rightarrow>
                    if txHash = []
                    then (Inl (SorobanException ''Soroban transaction did not return a hash''
                                 (Some contractId) (Some meth) (SendDetails sendResponse)), w)
                    else
     andThen (waitForTransaction cfg srv txHash (timeoutMs options) w)
       (\<lambda>confirmed w.
     andThen (getContractEvents cfg k srv txHash w)
       (\<lambda>events w. (build_result k simulation txHash confirmed events, w))))))"

text \<open>
  The first part (lines 69-91): the key pair, the source account, the operation, the
  transaction and its simulation; \<open>secret\<close> is \<^verbatim>\<open>options.sourceSecret\<close>, which the checks
  before the block have found present.
\<close>

definition source_of :: "invoke_options \<Rightarrow> keypair \<Rightarrow> string" where
  "source_of options sourceKeypair =
     (case sourceAccount options of
        Some a \<Rightarrow> if a \<noteq> [] then a else kp_publicKey sourceKeypair
      | None \<Rightarrow> kp_publicKey sourceKeypair)"

definition invoke_try ::
  "config \<Rightarrow> sdk \<Rightarrow> server \<Rightarrow> string \<Rightarrow> string \<Rightarrow> jsval list \<Rightarrow> string \<Rightarrow> invoke_options \<Rightarrow> world
   \<Rightarrow> (thrown + contract_result) \<times> world" where
  "invoke_try cfg k srv contractId meth params secret options w =
     andThen (map_sum Other id (Keypair_fromSecret k secret), w)
       (\<lambda>sourceKeypair w.
     andThen
       (withTimeout cfg
          (rpc_getAccount srv (source_of options sourceKeypair)
             (remote (GetAccount (source_of options sourceKeypair)) w))
          ''getAccount'' (timeoutMs options)
          (remote (GetAccount (source_of options sourceKeypair)) w))
       (\<lambda>acc w.
     andThen (buildContractOperation k contractId meth params, w)
       (\<lambda>operation w.
     andThen (simulateTransaction cfg srv (build_transaction cfg acc operation) w)
       (\<lambda>simulation w.
          submit_and_confirm cfg k srv contractId meth options sourceKeypair
            (build_transaction cfg acc operation) simulation w))))"

text \<open>
  The \<^verbatim>\<open>catch\<close> block (lines 146-162): a \<^verbatim>\<open>SorobanException\<close> is thrown again as it is, anything
  else is wrapped with the contract and the method.
\<close>

fun rethrow :: "string \<Rightarrow> string \<Rightarrow> thrown \<Rightarrow> thrown" where
  "rethrow contractId meth (SorobanException m c k d) = SorobanException m c k d"
| "rethrow contractId meth (Other (ErrorObj m)) =
     SorobanException m (Some contractId) (Some meth) (CauseDetails (ErrorObj m))"
| "rethrow contractId meth (Other (NonError v)) =
     SorobanException ''Unknown Soroban error'' (Some contractId) (Some meth) (CauseDetails (NonError v))"

text \<open>\<^verbatim>\<open>invokeContract\<close> (lines 46-163).\<close>

definition invokeContract ::
  "config \<Rightarrow> sdk \<Rightarrow> server \<Rightarrow> string \<Rightarrow> string \<Rightarrow> jsval list \<Rightarrow> invoke_options \<Rightarrow> world
   \<Rightarrow> (thrown + contract_result) \<times> world" where
  "invokeContract cfg k srv contractId meth params options w =
     (if contractId = [] \<or> meth = []
      then (Inl (SorobanException ''Contract ID and method are required''
                   (Some contractId) (Some meth) NoDetails), w)
      else
        (case sourceSecret options of
           None \<Rightarrow>
             (Inl (SorobanException ''Missing source secret for contract invocation''
                     (Some contractId) (Some meth) NoDetails), w)
         | Some secret \<Rightarrow>
             if secret = []
             then (Inl (SorobanException ''Missing source secret for contract invocation''
                          (Some contractId) (Some meth) NoDetails), w)
             else
               (case invoke_try cfg k srv contractId meth params secret options w of
                  (Inl error, w') \<Rightarrow> (Inl (rethrow contractId meth error), w')
                | (Inr r, w') \<Rightarrow> (Inr r, w'))))"

section \<open>Reference definitions and test doubles\<close>

text \<open>The remote calls and sleeps that a run adds to the trace, in order.\<close>

definition effects_since :: "world \<Rightarrow> world \<Rightarrow> effect list" where
  "effects_since w w' = map snd (drop (length (trace w)) (trace w'))"

text \<open>
  What follows the simulation in a run only adds to the trace, and adds no simulation:
  \<open>continues w w'\<close>.
\<close>

fun is_simulation :: "effect \<Rightarrow> bool" where
  "is_simulation (SimulateTransaction tx) = True"
| "is_simulation e = False"

definition continues :: "world \<Rightarrow> world \<Rightarrow> bool" where
  "continues w w' = (\<exists>es. trace w' = trace w @ es \<and> (\<forall>e \<in> set es. \<not> is_simulation (snd e)))"

text \<open>
  What the event decoder needs of a raw event for it to return: \<^verbatim>\<open>String\<close> converts the
  \<open>type\<close>, and the codec converts every ledger value (\<^verbatim>\<open>xdr.ScVal\<close> instance) among the topic
  entries and in the data.
\<close>

definition has_string :: "jsval \<Rightarrow> bool" where
  "has_string v = (case js_String v of Inl c \<Rightarrow> False | Inr s \<Rightarrow> True)"

definition converts :: "sdk \<Rightarrow> jsval \<Rightarrow> bool" where
  "converts k v =
     (case v of
        JScVal sv \<Rightarrow> (case scValToNative k sv of Inl c \<Rightarrow> False | Inr n \<Rightarrow> True)
      | _ \<Rightarrow> True)"

definition decodable :: "sdk \<Rightarrow> raw_event \<Rightarrow> bool" where
  "decodable k event =
     (has_string (rec_get event ''type'') \<and>
      (case js_or (rec_get event ''topic'') (rec_get event ''topics'') of
         JArr ts \<Rightarrow> list_all (converts k) ts
       | _ \<Rightarrow> True) \<and>
      converts k (js_or (rec_get event ''data'') (rec_get event ''value'')))"

text \<open>
  The decoding that \<^verbatim>\<open>parseScVal\<close> attempts on a string, as the specification words it: the
  string is decoded as a base64 ledger value and converted to a native value, or it cannot
  be decoded.
\<close>

definition decode_base64 :: "sdk \<Rightarrow> string \<Rightarrow> jsval option" where
  "decode_base64 k s =
     (case fromXDR k s of
        Inl c \<Rightarrow> None
      | Inr sv \<Rightarrow> (case scValToNative k sv of Inl c \<Rightarrow> None | Inr n \<Rightarrow> Some n))"

text \<open>
  The fee selection as the specification words it, for a given reading of "available":
  the first available bucket of the three, in it the first available of the four
  statistics, and the base fee when there is none.
\<close>

definition spec_resolveInclusionFee :: "(jsval \<Rightarrow> bool) \<Rightarrow> jsval \<Rightarrow> thrown + int" where
  "spec_resolveInclusionFee available feeStats =
     (case find available [js_get feeStats ''sorobanInclusionFee'', js_get feeStats ''inclusionFee'',
                           js_get feeStats ''feeCharged''] of
        None \<Rightarrow> toBigInt (JStr BASE_FEE)
      | Some bucket \<Rightarrow>
          (case find available [js_get bucket ''p95'', js_get bucket ''max'', js_get bucket ''mode'',
                                js_get bucket ''min''] of
             None \<Rightarrow> toBigInt (JStr BASE_FEE)
           | Some v \<Rightarrow> toBigInt v))"

definition feeStats_zero_p95 :: jsval where
  "feeStats_zero_p95 = JObj [(''inclusionFee'', JObj [(''p95'', JNum 0), (''max'', JStr ''250'')])]"

definition feeStats_zero_min :: jsval where
  "feeStats_zero_min = JObj [(''inclusionFee'', JObj [(''min'', JNum 0)])]"

text \<open>
  The confirmation poller as the specification words it: the delay before the query that
  follows attempt \<open>n\<close>, the deadline, the error raised at the deadline, and the trace of a
  run that has slept \<open>n\<close> times from attempt \<open>a\<close> on (a query, then its sleep, \<open>n\<close> times).
  \<open>last_query\<close> is the query that a run ends with unless it ends at the deadline check.
\<close>

definition spec_delay :: "nat \<Rightarrow> int" where
  "spec_delay n = min (2000 * (int n + 1)) 8000"

definition confirmation_timeout :: thrown where
  "confirmation_timeout = SorobanException ''Timed out waiting for Soroban transaction'' None None NoDetails"

definition poll_pattern :: "string \<Rightarrow> nat \<Rightarrow> nat \<Rightarrow> effect list" where
  "poll_pattern h a n = concat (map (\<lambda>i. [GetTransaction h, Sleep (spec_delay i)]) [a..<a + n])"

definition last_query :: "string \<Rightarrow> thrown + tx_response \<Rightarrow> effect list" where
  "last_query h r = (if r = Inl confirmation_timeout then [] else [GetTransaction h])"

definition settled :: "tx_response \<Rightarrow> bool" where
  "settled response = (tx_status response \<noteq> None \<and> tx_status response \<noteq> Some PENDING)"

definition spec_deadline :: "config \<Rightarrow> int option \<Rightarrow> world \<Rightarrow> int" where
  "spec_deadline cfg tmo w = clock w + (case tmo of Some t \<Rightarrow> t | None \<Rightarrow> apiTimeout cfg)"

text \<open>
  Amounts without a minus sign: a decimal digit; a value that \<^verbatim>\<open>toBigInt\<close> cannot turn into
  a negative integer; fee statistics whose every statistic, in every bucket, is such a value.
\<close>

definition decimal :: "char \<Rightarrow> bool" where
  "decimal c = (c \<in> set ''0123456789'')"

definition unsigned_amount :: "jsval \<Rightarrow> bool" where
  "unsigned_amount v =
     (case v of
        JBigInt n \<Rightarrow> 0 \<le> n
      | _ \<Rightarrow> (case js_String v of Inl c \<Rightarrow> True | Inr s \<Rightarrow> CHR ''-'' \<notin> set s))"


text \<open>
  A fake SDK, a fake endpoint and a fake configuration for the examples. The endpoint
  answers at once; its \<^verbatim>\<open>getTransaction\<close> answers its \<open>n\<close>-th query for a hash (from \<open>0\<close>)
  with \<open>poll n\<close>.
\<close>

definition fake_sdk :: sdk where
  "fake_sdk =
     \<lparr>fromXDR = (\<lambda>s. if s = ''AAAAAwAAACo='' then Inr (ScVal s) else Inl (ErrorObj ''XDR Read Error'')),
      scValToNative = (\<lambda>sv. if sv = ScVal ''AAAAAwAAACo='' then Inr (JNum 42) else Inr JNull),
      nativeToScVal = (\<lambda>v. if v = JNum 42 then Inr (ScVal ''AAAAAwAAACo='')
                            else Inl (ErrorObj ''Unsupported value'')),
      Keypair_fromSecret = (\<lambda>s. if s = ''SECRET'' then Inr \<lparr>kp_secret = s, kp_publicKey = ''GSOURCE''\<rparr>
                                 else Inl (ErrorObj ''invalid encoded string'')),
      Contract_new = (\<lambda>c. if c = ''C1'' then Inr () else Inl (ErrorObj ''Invalid contract ID''))\<rparr>"

definition fake_server :: "simulation \<Rightarrow> (nat \<Rightarrow> tx_response) \<Rightarrow> jsval option \<Rightarrow> server" where
  "fake_server sim poll stats =
     \<lparr>rpc_getAccount = (\<lambda>a w. Settles 0 (Inr \<lparr>acc_id = a, acc_sequence = ''1''\<rparr>)),
      rpc_simulateTransaction = (\<lambda>tx w. Settles 0 (Inr sim)),
      rpc_prepareTransaction = (\<lambda>tx w. Settles 0 (Inr tx)),
      rpc_sendTransaction = (\<lambda>tx w. Settles 0 (Inr \<lparr>send_status = ''PENDING'', send_hash = Some ''abc123''\<rparr>)),
      rpc_getTransaction =
        (\<lambda>h w. Settles 0 (Inr (poll (length (filter (\<lambda>x. snd x = GetTransaction h) (trace w)) - 1)))),
      rpc_getFeeStats = map_option (\<lambda>fs w. Settles 0 (Inr fs)) stats\<rparr>"

definition fake_config :: config where
  "fake_config = \<lparr>apiTimeout = 30000, networkPassphrase = ''Test SDF Network ; September 2015''\<rparr>"

definition start :: world where
  "start = \<lparr>clock = 0, trace = []\<rparr>"

definition pending_response :: tx_response where
  "pending_response =
     \<lparr>tx_status = Some PENDING, tx_feeCharged = JUndefined, tx_errorResultXdr = JUndefined,
      tx_resultXdr = JUndefined, tx_events = None\<rparr>"

definition success_response :: tx_response where
  "success_response =
     \<lparr>tx_status = Some SUCCESS, tx_feeCharged = JNum 100, tx_errorResultXdr = JUndefined,
      tx_resultXdr = JUndefined, tx_events = None\<rparr>"

definition secret_options :: invoke_options where
  "secret_options = \<lparr>sourceSecret = Some ''SECRET'', sourceAccount = None, timeoutMs = None\<rparr>"

text \<open>An endpoint that answers the first \<open>pending\<close> status queries with \<^verbatim>\<open>PENDING\<close>.\<close>

definition polling_server :: "nat \<Rightarrow> server" where
  "polling_server pending =
     fake_server (SimulationSuccess \<lparr>sim_minResourceFee = JStr ''5000'', sim_result = Some (JScVal (ScVal ''AAAAAwAAACo=''))\<rparr>)
       (\<lambda>n. if n < pending then pending_response else success_response) None"

text \<open>
  An endpoint that answers its \<open>n\<close>-th simulation (from \<open>0\<close>) with \<open>sims n\<close>: one whose first
  simulation fails and whose later ones succeed, and one whose first simulation previews
  the return value \<open>0\<close> and whose later ones preview \<open>42\<close>. A codec that throws on every
  ledger value but one.
\<close>

definition scripted_server :: "(nat \<Rightarrow> simulation) \<Rightarrow> server" where
  "scripted_server sims =
     (fake_server (sims 0) (\<lambda>n. success_response) None)
       \<lparr>rpc_simulateTransaction :=
          (\<lambda>tx w. Settles 0 (Inr (sims (length (filter (\<lambda>x. is_simulation (snd x)) (trace w)) - 1))))\<rparr>"

definition flaky_server :: server where
  "flaky_server =
     scripted_server (\<lambda>n. if n = 0 then SimulationError ''boom''
        else SimulationSuccess \<lparr>sim_minResourceFee = JStr ''5000'', sim_result = Some (JNum 42)\<rparr>)"

definition first_zero_server :: server where
  "first_zero_server =
     scripted_server (\<lambda>n. SimulationSuccess
        \<lparr>sim_minResourceFee = JStr ''5000'', sim_result = Some (if n = 0 then JNum 0 else JNum 42)\<rparr>)"

definition strict_sdk :: sdk where
  "strict_sdk =
     fake_sdk\<lparr>scValToNative :=
       (\<lambda>sv. if sv = ScVal ''AAAAAwAAACo='' then Inr (JNum 42)
             else Inl (ErrorObj ''Unsupported address type''))\<rparr>"

text \<open>An endpoint whose simulation previews the return value \<open>0\<close>.\<close>

definition zero_retval_server :: server where
  "zero_retval_server =
     fake_server (SimulationSuccess \<lparr>sim_minResourceFee = JStr ''5000'', sim_result = Some (JNum 0)\<rparr>)
       (\<lambda>n. success_response) None"

text \<open>
  An endpoint for \<^verbatim>\<open>estimateFees\<close>: the simulation reports \<open>minResourceFee\<close>, and
  \<^verbatim>\<open>getFeeStats\<close> is missing (\<open>None\<close>) or answers \<open>stats\<close>. Fee statistics with a generic
  bucket only, and the operation of the examples.
\<close>

definition stats_server :: "jsval \<Rightarrow> jsval option \<Rightarrow> server" where
  "stats_server minResourceFee stats =
     fake_server (SimulationSuccess \<lparr>sim_minResourceFee = minResourceFee, sim_result = None\<rparr>)
       (\<lambda>n. success_response) stats"

definition swap_operation :: operation where
  "swap_operation = InvokeContract ''C1'' ''swap'' [ScVal ''AAAAAwAAACo='']"

definition generic_p95_stats :: jsval where
  "generic_p95_stats = JObj [(''inclusionFee'', JObj [(''p95'', JStr ''250''), (''max'', JStr ''300'')])]"

text \<open>Fee statistics with a Soroban bucket and a generic bucket.\<close>

definition soroban_max_stats :: jsval where
  "soroban_max_stats =
     JObj [(''sorobanInclusionFee'', JObj [(''max'', JStr ''300'')]),
           (''inclusionFee'', JObj [(''p95'', JStr ''250'')])]"

section \<open>Auxiliary facts\<close>

lemma andThen_Inl [simp]: "andThen (Inl e, w) f = (Inl e, w)"
  by (simp add: andThen_def)

lemma andThen_Inr [simp]: "andThen (Inr a, w) f = f a w"
  by (simp add: andThen_def)

lemma andThen_eq_Inr:
  "andThen m f = (Inr b, w') \<Longrightarrow> \<exists>a w1. m = (Inr a, w1) \<and> f a w1 = (Inr b, w')"
  by (cases m) (auto simp: andThen_def split: sum.splits)

lemma withTimeout_trace: "withTimeout cfg p l t w = (r, w') \<Longrightarrow> trace w' = trace w"
  by (auto simp: withTimeout_def Let_def split: reply.splits if_splits)

lemma withTimeout_Inr:
  "withTimeout cfg p l t w = (Inr v, w') \<Longrightarrow>
     \<exists>d. p = Settles d (Inr v) \<and> int d < timer_delay (timeout_budget cfg t) \<and> w' = w\<lparr>clock := clock w + int d\<rparr>"
  by (auto simp: withTimeout_def Let_def split: reply.splits if_splits sum.splits)

lemma simulateTransaction_trace:
  "simulateTransaction cfg srv tx w = (r, w') \<Longrightarrow> trace w' = trace w @ [(clock w, SimulateTransaction tx)]"
  by (auto simp: simulateTransaction_def andThen_def remote_def dest!: withTimeout_trace
      split: sum.splits simulation.splits prod.splits)

lemma simulateTransaction_Inr:
  "simulateTransaction cfg srv tx w = (Inr s, w') \<Longrightarrow>
     \<exists>d. rpc_simulateTransaction srv tx (remote (SimulateTransaction tx) w) = Settles d (Inr (SimulationSuccess s))"
  by (auto simp: simulateTransaction_def andThen_def dest!: withTimeout_Inr
      split: sum.splits simulation.splits prod.splits)

lemma simulateTransaction_error:
  assumes "rpc_simulateTransaction srv tx (remote (SimulateTransaction tx) w) = Settles d (Inr (SimulationError diag))"
    and "int d < timer_delay (apiTimeout cfg)"
  shows "fst (simulateTransaction cfg srv tx w) =
           Inl (SorobanException (''Simulation failed: '' @ diag) None None NoDetails)"
  using assms by (simp add: simulateTransaction_def withTimeout_def timeout_budget_def)

text \<open>The try block either stops before the simulation or reaches it.\<close>

lemma invoke_try_cases:
  assumes run: "invoke_try cfg k srv contractId meth params secret options w = (r, w')"
  shows "(\<exists>e. r = Inl e \<and> (trace w' = trace w \<or> (\<exists>a. trace w' = trace w @ [(clock w, GetAccount a)]))) \<or>
         (\<exists>sourceKeypair a tx w1 rs w2.
            trace w1 = trace w @ [(clock w, GetAccount a)] \<and>
            simulateTransaction cfg srv tx w1 = (rs, w2) \<and>
            (case rs of
               Inl e \<Rightarrow> r = Inl e \<and> w' = w2
             | Inr simulation \<Rightarrow>
                 submit_and_confirm cfg k srv contractId meth options sourceKeypair tx simulation w2 = (r, w')))"
proof (cases "Keypair_fromSecret k secret")
  case (Inl c)
  with run show ?thesis by (auto simp: invoke_try_def)
next
  case kp: (Inr sourceKeypair)
  define source where "source = source_of options sourceKeypair"
  obtain ra w1 where acc: "withTimeout cfg (rpc_getAccount srv source (remote (GetAccount source) w))
             ''getAccount'' (timeoutMs options) (remote (GetAccount source) w) = (ra, w1)"
    by (cases "withTimeout cfg (rpc_getAccount srv source (remote (GetAccount source) w))
             ''getAccount'' (timeoutMs options) (remote (GetAccount source) w)") auto
  then have tr1: "trace w1 = trace w @ [(clock w, GetAccount source)]"
    by (auto dest!: withTimeout_trace simp: remote_def)
  show ?thesis
  proof (cases ra)
    case (Inl e)
    with run kp acc tr1 show ?thesis
      by (auto simp: invoke_try_def source_def [symmetric])
  next
    case a: (Inr account)
    show ?thesis
    proof (cases "buildContractOperation k contractId meth params")
      case (Inl e)
      with run kp acc tr1 a show ?thesis
        by (auto simp: invoke_try_def source_def [symmetric])
    next
      case op: (Inr operation)
      obtain rs w2 where sim: "simulateTransaction cfg srv (build_transaction cfg account operation) w1 = (rs, w2)"
        by (cases "simulateTransaction cfg srv (build_transaction cfg account operation) w1") auto
      have "case rs of
               Inl e \<Rightarrow> r = Inl e \<and> w' = w2
             | Inr simulation \<Rightarrow>
                 submit_and_confirm cfg k srv contractId meth options sourceKeypair
                   (build_transaction cfg account operation) simulation w2 = (r, w')"
        using run kp acc a op sim
        by (auto simp: invoke_try_def source_def [symmetric] split: sum.splits)
      with tr1 sim show ?thesis by blast
    qed
  qed
qed


lemma invokeContract_precondition:
  "contractId = [] \<or> meth = [] \<or> sourceSecret options = None \<or> sourceSecret options = Some [] \<Longrightarrow>
     \<exists>m. invokeContract cfg k srv contractId meth params options w =
           (Inl (SorobanException m (Some contractId) (Some meth) NoDetails), w)"
  by (auto simp: invokeContract_def)

lemma invokeContract_cases:
  assumes run: "invokeContract cfg k srv contractId meth params options w = (r, w')"
  shows "(w' = w \<and> (\<exists>m. r = Inl (SorobanException m (Some contractId) (Some meth) NoDetails))) \<or>
     (\<exists>secret r0. invoke_try cfg k srv contractId meth params secret options w = (r0, w') \<and>
        r = map_sum (rethrow contractId meth) id r0)"
proof (cases "contractId = [] \<or> meth = [] \<or> sourceSecret options = None \<or> sourceSecret options = Some []")
  case True
  from invokeContract_precondition [OF True, of cfg k srv params w] run show ?thesis by auto
next
  case False
  then obtain secret where secret: "sourceSecret options = Some secret" "secret \<noteq> []" by auto
  obtain r0 w0 where body: "invoke_try cfg k srv contractId meth params secret options w = (r0, w0)"
    by (cases "invoke_try cfg k srv contractId meth params secret options w") auto
  with run False secret have "w' = w0 \<and> r = map_sum (rethrow contractId meth) id r0"
    by (cases r0) (auto simp: invokeContract_def)
  with body show ?thesis by blast
qed

lemma rethrow_SorobanException [simp]:
  "is_SorobanException e \<Longrightarrow> rethrow contractId meth e = e"
  by (cases e) simp_all

lemma build_result_Inr:
  "build_result k simulation h confirmed events = Inr res \<Longrightarrow>
     parseScVal k (sim_retval simulation) = Inr (cr_result res)"
  by (auto simp: build_result_def split: sum.splits)

lemma submit_and_confirm_result:
  "submit_and_confirm cfg k srv contractId meth options kp tx simulation w = (Inr res, w') \<Longrightarrow>
     parseScVal k (sim_retval simulation) = Inr (cr_result res)"
  by (auto simp: submit_and_confirm_def dest!: andThen_eq_Inr build_result_Inr
      split: if_splits option.splits)

lemma effects_since_append [simp]: "trace w' = trace w @ es \<Longrightarrow> effects_since w w' = map snd es"
  by (simp add: effects_since_def)

lemma effects_since_same [simp]: "trace w' = trace w \<Longrightarrow> effects_since w w' = []"
  by (simp add: effects_since_def)

lemma parseScVal_falsy: "\<not> truthy v \<Longrightarrow> parseScVal k v = Inr JUndefined"
  by (simp add: parseScVal_def)

lemma StringToBigInt_250: "StringToBigInt ''250'' = Some 250"
  by (simp add: StringToBigInt_def js_trim_def is_ws_def parse_radix_def digit_value_def)

lemma StringToBigInt_100: "StringToBigInt ''100'' = Some 100"
  by (simp add: StringToBigInt_def js_trim_def is_ws_def parse_radix_def digit_value_def)

lemma StringToBigInt_0: "StringToBigInt ''0'' = Some 0"
  by (simp add: StringToBigInt_def js_trim_def is_ws_def parse_radix_def digit_value_def)

lemma toBigInt_BASE_FEE: "toBigInt (JStr BASE_FEE) = Inr 100"
  by (simp add: toBigInt_def BASE_FEE_def StringToBigInt_100)

lemma int_toString_0: "int_toString 0 = ''0''"
  by (simp add: int_toString_def nat_digits.simps digit_char_def)

lemma toBigInt_zero: "toBigInt (JNum 0) = Inr 0"
  by (simp add: toBigInt_def int_toString_0 StringToBigInt_0)

lemma resolve_zero_p95: "resolveInclusionFee feeStats_zero_p95 = Inr 250"
  by (simp add: resolveInclusionFee_def feeStats_zero_p95_def js_get_def rec_get_def js_or_def
      toBigInt_def StringToBigInt_250)

lemma resolve_zero_min: "resolveInclusionFee feeStats_zero_min = Inr 0"
  by (simp add: resolveInclusionFee_def feeStats_zero_min_def js_get_def rec_get_def js_or_def
      toBigInt_zero)

lemma toBigInt_undefined: "toBigInt JUndefined = Inl (Other (ErrorObj ''Cannot convert undefined to a BigInt''))"
  by (simp add: toBigInt_def StringToBigInt_def js_trim_def is_ws_def parse_radix_def digit_value_def)

lemma failed_simulation_run:
  "invokeContract fake_config fake_sdk (fake_server (SimulationError ''boom'') (\<lambda>n. success_response) None)
     ''C1'' ''swap'' [JNum 42] secret_options start =
   (Inl (SorobanException ''Simulation failed: boom'' None None NoDetails),
    \<lparr>clock = 0,
     trace = [(0, GetAccount ''GSOURCE''),
              (0, SimulateTransaction
                    (build_transaction fake_config \<lparr>acc_id = ''GSOURCE'', acc_sequence = ''1''\<rparr>
                       (InvokeContract ''C1'' ''swap'' [ScVal ''AAAAAwAAACo=''])))]\<rparr>)"
  by (simp add: invokeContract_def invoke_try_def fake_config_def fake_sdk_def fake_server_def
      secret_options_def start_def source_of_def withTimeout_def timeout_budget_def remote_def
      buildContractOperation_def toScVal_def simulateTransaction_def)

subsection \<open>The polling loop\<close>

lemma poll_pattern_0 [simp]: "poll_pattern h a 0 = []"
  by (simp add: poll_pattern_def)

lemma poll_pattern_Suc:
  "poll_pattern h a (Suc n) = [GetTransaction h, Sleep (spec_delay a)] @ poll_pattern h (Suc a) n"
  using upt_rec [of a "a + Suc n"] by (simp add: poll_pattern_def)

lemma withTimeout_not_confirmation_timeout:
  "withTimeout cfg p l t w = (Inl e, w') \<Longrightarrow> e \<noteq> confirmation_timeout"
  by (auto simp: withTimeout_def Let_def timed_out_def confirmation_timeout_def
      split: reply.splits if_splits sum.splits)

lemma loop_shape:
  "waitForTransaction_loop cfg srv h tmo deadline a w = (r, w') \<Longrightarrow>
     \<exists>n es. trace w' = trace w @ es \<and>
            map snd es = poll_pattern h a n @ last_query h r \<and>
            (\<forall>x \<in> set es. snd x = GetTransaction h \<longrightarrow> fst x < deadline) \<and>
            (r = Inl confirmation_timeout \<longrightarrow> deadline \<le> clock w') \<and>
            (\<forall>response. r = Inr response \<longrightarrow> settled response)"
proof (induction cfg srv h tmo deadline a w arbitrary: r w' rule: waitForTransaction_loop.induct)
  case (1 cfg srv txHash tmo deadline attempt w)
  show ?case
  proof (cases "clock w < deadline")
    case False
    with "1.prems" have "r = Inl confirmation_timeout" "w' = w"
      by (simp_all add: waitForTransaction_loop.simps [of cfg srv txHash tmo deadline attempt w]
          confirmation_timeout_def)
    with False show ?thesis
      by (intro exI [of _ 0] exI [of _ "[]"]) (simp add: last_query_def)
  next
    case True
    obtain x w1 where call: "withTimeout cfg (rpc_getTransaction srv txHash (remote (GetTransaction txHash) w))
                ''getTransaction'' tmo (remote (GetTransaction txHash) w) = (x, w1)"
      by (cases "withTimeout cfg (rpc_getTransaction srv txHash (remote (GetTransaction txHash) w))
                ''getTransaction'' tmo (remote (GetTransaction txHash) w)") auto
    then have tr1: "trace w1 = trace w @ [(clock w, GetTransaction txHash)]"
      by (auto dest!: withTimeout_trace simp: remote_def)
    show ?thesis
    proof (cases x)
      case (Inl e)
      with "1.prems" True call have res: "r = Inl e" "w' = w1"
        by (simp_all add: waitForTransaction_loop.simps [of cfg srv txHash tmo deadline attempt w])
      from call Inl have "e \<noteq> confirmation_timeout"
        by (auto dest: withTimeout_not_confirmation_timeout)
      with res tr1 True show ?thesis
        by (intro exI [of _ 0] exI [of _ "[(clock w, GetTransaction txHash)]"]) (simp add: last_query_def)
    next
      case (Inr response)
      show ?thesis
      proof (cases "settled response")
        case settled: True
        with "1.prems" True call Inr have res: "r = Inr response" "w' = w1"
          by (simp_all add: waitForTransaction_loop.simps [of cfg srv txHash tmo deadline attempt w]
              settled_def)
        with tr1 True settled show ?thesis
          by (intro exI [of _ 0] exI [of _ "[(clock w, GetTransaction txHash)]"]) (simp add: last_query_def)
      next
        case pending: False
        let ?w2 = "sleep (min (2000 * (int attempt + 1)) 8000) w1"
        from "1.prems" True call Inr pending
        have rec: "waitForTransaction_loop cfg srv txHash tmo deadline (attempt + 1) ?w2 = (r, w')"
          by (auto simp: waitForTransaction_loop.simps [of cfg srv txHash tmo deadline attempt w]
              settled_def split: if_splits)
        from pending have notset: "\<not> (tx_status response \<noteq> None \<and> tx_status response \<noteq> Some PENDING)"
          by (simp add: settled_def)
        from "1.IH" [OF True call [symmetric] Inr notset rec]
        obtain n es where ih:
          "trace w' = trace ?w2 @ es"
          "map snd es = poll_pattern txHash (attempt + 1) n @ last_query txHash r"
          "\<forall>x \<in> set es. snd x = GetTransaction txHash \<longrightarrow> fst x < deadline"
          "r = Inl confirmation_timeout \<longrightarrow> deadline \<le> clock w'"
          "\<forall>response. r = Inr response \<longrightarrow> settled response"
          by blast
        have tr2: "trace ?w2 = trace w @ [(clock w, GetTransaction txHash), (clock w1, Sleep (spec_delay attempt))]"
          using tr1 by (simp add: sleep_def spec_delay_def)
        show ?thesis
        proof (intro exI [of _ "Suc n"]
            exI [of _ "[(clock w, GetTransaction txHash), (clock w1, Sleep (spec_delay attempt))] @ es"] conjI)
          show "trace w' = trace w @ [(clock w, GetTransaction txHash), (clock w1, Sleep (spec_delay attempt))] @ es"
            using ih(1) tr2 by simp
          show "map snd ([(clock w, GetTransaction txHash), (clock w1, Sleep (spec_delay attempt))] @ es) =
                  poll_pattern txHash attempt (Suc n) @ last_query txHash r"
            using ih(2) by (simp add: poll_pattern_Suc)
          show "\<forall>x \<in> set ([(clock w, GetTransaction txHash), (clock w1, Sleep (spec_delay attempt))] @ es).
                  snd x = GetTransaction txHash \<longrightarrow> fst x < deadline"
            using ih(3) True by auto
          show "r = Inl confirmation_timeout \<longrightarrow> deadline \<le> clock w'" by (rule ih(4))
          show "\<forall>response. r = Inr response \<longrightarrow> settled response" by (rule ih(5))
        qed
      qed
    qed
  qed
qed


lemma loop_step:
  assumes "clock w < deadline"
    and "withTimeout cfg (rpc_getTransaction srv h (remote (GetTransaction h) w))
           ''getTransaction'' tmo (remote (GetTransaction h) w) = (Inr response, w1)"
  shows "waitForTransaction_loop cfg srv h tmo deadline n w =
           (if tx_status response = None \<or> tx_status response = Some PENDING
            then waitForTransaction_loop cfg srv h tmo deadline (n + 1) (sleep (spec_delay n) w1)
            else (Inr response, w1))"
  using assms
  by (simp add: waitForTransaction_loop.simps [of cfg srv h tmo deadline n w] spec_delay_def)

lemma loop_past_deadline:
  "deadline \<le> clock w \<Longrightarrow>
     waitForTransaction_loop cfg srv h tmo deadline n w = (Inl confirmation_timeout, w)"
  by (simp add: waitForTransaction_loop.simps [of cfg srv h tmo deadline n w] confirmation_timeout_def)

lemma pending_twice_run:
  "waitForTransaction fake_config (polling_server 2) ''abc123'' None start =
     (Inr success_response,
      \<lparr>clock = 6000,
       trace = [(0, GetTransaction ''abc123''), (0, Sleep 2000), (2000, GetTransaction ''abc123''),
                (2000, Sleep 4000), (6000, GetTransaction ''abc123'')]\<rparr>)"
  by (simp add: waitForTransaction_def waitForTransaction_loop.simps polling_server_def fake_server_def
      fake_config_def start_def withTimeout_def timeout_budget_def remote_def sleep_def
      pending_response_def success_response_def)

lemma spec_delay_values: "map spec_delay [0, 1, 2, 3, 4, 5] = [2000, 4000, 6000, 8000, 8000, 8000]"
  by (simp add: spec_delay_def)

lemma timeout_budget_given: "tmo \<noteq> Some 0 \<Longrightarrow> clock w + timeout_budget cfg tmo = spec_deadline cfg tmo w"
  by (auto simp: timeout_budget_def spec_deadline_def split: option.splits)

lemma always_pending_run:
  "waitForTransaction fake_config (polling_server 10) ''abc123'' (Some 5000) start =
     (Inl confirmation_timeout,
      \<lparr>clock = 6000,
       trace = [(0, GetTransaction ''abc123''), (0, Sleep 2000), (2000, GetTransaction ''abc123''),
                (2000, Sleep 4000)]\<rparr>)"
  by (simp add: waitForTransaction_def waitForTransaction_loop.simps polling_server_def fake_server_def
      fake_config_def start_def withTimeout_def timeout_budget_def remote_def sleep_def
      pending_response_def success_response_def confirmation_timeout_def)

subsection \<open>The event decoder and whole runs\<close>

lemma map_throw_Inr:
  "map_throw f xs = Inr ys \<Longrightarrow> length ys = length xs \<and> (\<forall>i<length xs. f (xs ! i) = Inr (ys ! i))"
proof (induction xs arbitrary: ys)
  case Nil
  then show ?case by simp
next
  case (Cons x xs)
  from Cons.prems obtain y ys' where parts: "f x = Inr y" "map_throw f xs = Inr ys'" "ys = y # ys'"
    by (auto split: sum.splits)
  from Cons.IH [OF parts(2)] parts show ?case
    by (auto simp: nth_Cons split: nat.splits)
qed

lemma map_throw_returns:
  "(\<exists>ys. map_throw f xs = Inr ys) \<longleftrightarrow> list_all (\<lambda>x. \<exists>y. f x = Inr y) xs"
  by (induction xs) (auto split: sum.splits)

lemma parseScVal_returns: "(\<exists>n. parseScVal k v = Inr n) \<longleftrightarrow> converts k v"
  by (cases v) (auto simp: parseScVal_def converts_def split: sum.splits)

lemma has_string_falsy: "\<not> truthy v \<Longrightarrow> has_string v"
  by (cases v) (simp_all add: has_string_def)

lemma has_string_or: "has_string (js_or v (JStr s)) \<longleftrightarrow> has_string v"
  by (auto simp: js_or_def has_string_falsy) (simp add: has_string_def)

lemma map_sum_Inr_iff: "map_sum f g m = Inr x \<longleftrightarrow> (\<exists>y. m = Inr y \<and> x = g y)"
  by (cases m) auto

lemma parseEvent_fields:
  assumes "parseEvent k event = Inr ev"
  shows "js_String (js_or (rec_get event ''type'') (JStr ''unknown'')) = Inr (ev_type ev)"
    and "ev_contractId ev = js_or (rec_get event ''contractId'') (rec_get event ''contract_id'')"
    and "parseScVal k (js_or (rec_get event ''data'') (rec_get event ''value'')) = Inr (ev_data ev)"
    and "js_or (rec_get event ''topic'') (rec_get event ''topics'') = JArr ts \<Longrightarrow>
           \<exists>ds. map_throw (parseScVal k) ts = Inr ds \<and> ev_topics ev = Some ds"
    and "(\<forall>ts. js_or (rec_get event ''topic'') (rec_get event ''topics'') \<noteq> JArr ts) \<Longrightarrow>
           ev_topics ev = None"
  using assms
  by (auto simp: parseEvent_def Let_def map_sum_Inr_iff split: sum.splits jsval.splits)

lemma parseEvent_returns: "(\<exists>ev. parseEvent k event = Inr ev) \<longleftrightarrow> decodable k event"
proof
  assume "\<exists>ev. parseEvent k event = Inr ev"
  then obtain ev where ev: "parseEvent k event = Inr ev" by blast
  note f = parseEvent_fields [OF ev]
  from f(1) have "has_string (js_or (rec_get event ''type'') (JStr ''unknown''))"
    by (simp add: has_string_def)
  then have ty: "has_string (rec_get event ''type'')" by (simp add: has_string_or)
  from f(3) have data: "converts k (js_or (rec_get event ''data'') (rec_get event ''value''))"
    using parseScVal_returns [of k] by blast
  have topics: "list_all (converts k) ts"
    if "js_or (rec_get event ''topic'') (rec_get event ''topics'') = JArr ts" for ts
  proof -
    from f(4) [OF that] have "\<exists>ds. map_throw (parseScVal k) ts = Inr ds" by blast
    then show ?thesis by (simp add: map_throw_returns parseScVal_returns)
  qed
  from ty data topics show "decodable k event"
    by (simp add: decodable_def split: jsval.splits)
next
  assume dec: "decodable k event"
  then have "has_string (js_or (rec_get event ''type'') (JStr ''unknown''))"
    by (simp add: decodable_def has_string_or)
  then obtain t where t: "js_String (js_or (rec_get event ''type'') (JStr ''unknown'')) = Inr t"
    by (auto simp: has_string_def split: sum.splits)
  from dec obtain d where d: "parseScVal k (js_or (rec_get event ''data'') (rec_get event ''value'')) = Inr d"
    using parseScVal_returns [of k] by (auto simp: decodable_def)
  show "\<exists>ev. parseEvent k event = Inr ev"
  proof (cases "js_or (rec_get event ''topic'') (rec_get event ''topics'')")
    case (JArr ts)
    with dec have "list_all (converts k) ts" by (simp add: decodable_def)
    then have "\<exists>ds. map_throw (parseScVal k) ts = Inr ds"
      by (simp add: map_throw_returns parseScVal_returns)
    then obtain ds where "map_throw (parseScVal k) ts = Inr ds" by blast
    with JArr t d show ?thesis by (simp add: parseEvent_def)
  qed (use t d in \<open>simp_all add: parseEvent_def\<close>)
qed

lemma parseEvents_returns:
  "(\<exists>evs. parseEvents k events = Inr evs) \<longleftrightarrow> list_all (decodable k) events"
  by (simp add: parseEvents_def map_throw_returns parseEvent_returns)

lemma zero_retval_run:
  "invokeContract fake_config fake_sdk zero_retval_server ''C1'' ''swap'' [JNum 42] secret_options start =
     (Inr \<lparr>cr_success = True, cr_hash = Some ''abc123'', cr_status = Some ''SUCCESS'',
           cr_result = JUndefined, cr_events = [], cr_feeCharged = Some ''100'', cr_error = None\<rparr>,
      \<lparr>clock = 0,
       trace =
         [(0, GetAccount ''GSOURCE''),
          (0, SimulateTransaction
                (build_transaction fake_config \<lparr>acc_id = ''GSOURCE'', acc_sequence = ''1''\<rparr>
                   (InvokeContract ''C1'' ''swap'' [ScVal ''AAAAAwAAACo=''])))  ,
          (0, PrepareTransaction
                (build_transaction fake_config \<lparr>acc_id = ''GSOURCE'', acc_sequence = ''1''\<rparr>
                   (InvokeContract ''C1'' ''swap'' [ScVal ''AAAAAwAAACo=''])))  ,
          (0, SendTransaction
                (sign \<lparr>kp_secret = ''SECRET'', kp_publicKey = ''GSOURCE''\<rparr>
                   (build_transaction fake_config \<lparr>acc_id = ''GSOURCE'', acc_sequence = ''1''\<rparr>
                      (InvokeContract ''C1'' ''swap'' [ScVal ''AAAAAwAAACo=''])))),
          (0, GetTransaction ''abc123''),
          (0, GetTransaction ''abc123'')]\<rparr>)"
  by (simp add: invokeContract_def invoke_try_def submit_and_confirm_def zero_retval_server_def
      fake_config_def fake_sdk_def fake_server_def
      secret_options_def start_def source_of_def withTimeout_def timeout_budget_def remote_def
      buildContractOperation_def toScVal_def simulateTransaction_def
      waitForTransaction_def waitForTransaction_loop.simps getContractEvents_def parseEvents_def
      parseScVal_def sim_retval_def success_response_def build_result_def opt_toString_def
      js_toString_def
      int_toString_def nat_digits.simps digit_char_def)

subsection \<open>Decimal strings and fees\<close>

lemma digit_value_digit_char: "d < 10 \<Longrightarrow> digit_value (digit_char d) = Some d"
proof -
  assume "d < 10"
  then have "d \<in> {0, 1, 2, 3, 4, 5, 6, 7, 8, 9}" by auto
  then show ?thesis
    by (elim insertE emptyE) (simp_all add: digit_char_def digit_value_def)
qed

lemma digit_char_decimal: "d < 10 \<Longrightarrow> decimal (digit_char d)"
proof -
  assume "d < 10"
  then have "d \<in> {0, 1, 2, 3, 4, 5, 6, 7, 8, 9}" by auto
  then show ?thesis
    by (elim insertE emptyE) (simp_all add: digit_char_def decimal_def)
qed

lemma parse_digits_append:
  "parse_digits r (xs @ ys) acc =
     (case parse_digits r xs acc of None \<Rightarrow> None | Some a \<Rightarrow> parse_digits r ys a)"
  by (induction xs arbitrary: acc) (auto split: option.splits)

lemma parse_nat_digits: "parse_digits 10 (nat_digits n) 0 = Some n"
proof (induction n rule: nat_digits.induct)
  case (1 n)
  show ?case
  proof (cases "n < 10")
    case True
    then show ?thesis
      by (simp add: nat_digits.simps [of n] digit_value_digit_char)
  next
    case False
    with "1.IH" have "parse_digits 10 (nat_digits (n div 10)) 0 = Some (n div 10)" by simp
    with False show ?thesis
      by (simp add: nat_digits.simps [of n] parse_digits_append digit_value_digit_char)
  qed
qed

lemma nat_digits_decimal: "list_all decimal (nat_digits n)"
proof (induction n rule: nat_digits.induct)
  case (1 n)
  show ?case
  proof (cases "n < 10")
    case True
    with digit_char_decimal [of n] show ?thesis by (simp add: nat_digits.simps [of n])
  next
    case False
    with "1.IH" digit_char_decimal [of "n mod 10"] show ?thesis
      by (simp add: nat_digits.simps [of n])
  qed
qed

lemma nat_digits_nonempty: "nat_digits n \<noteq> []"
  by (subst nat_digits.simps) simp

lemma dropWhile_none: "\<forall>c \<in> set xs. \<not> P c \<Longrightarrow> dropWhile P xs = xs"
  by (cases xs) auto

lemma js_trim_no_ws: "\<forall>c \<in> set s. \<not> is_ws c \<Longrightarrow> js_trim s = s"
  by (simp add: js_trim_def dropWhile_none)

lemma decimal_not_ws: "decimal c \<Longrightarrow> \<not> is_ws c"
  by (auto simp: is_ws_def decimal_def)

lemma decimal_plain:
  "decimal c \<Longrightarrow>
     c \<noteq> CHR ''-'' \<and> c \<noteq> CHR ''+'' \<and> c \<notin> set ''xX'' \<and> c \<notin> set ''oO'' \<and> c \<notin> set ''bB''"
  by (auto simp: decimal_def)

lemma StringToBigInt_decimal:
  assumes c: "decimal c" and cs: "list_all decimal cs"
  shows "StringToBigInt (c # cs) = parse_radix 10 (c # cs)"
proof -
  from c cs have "\<forall>x \<in> set (c # cs). \<not> is_ws x"
    by (simp add: decimal_not_ws list_all_iff)
  then have trim: "js_trim (c # cs) = c # cs"
    by (rule js_trim_no_ws)
  from decimal_plain [OF c] have sign: "c \<noteq> CHR ''-''" "c \<noteq> CHR ''+''" by simp_all
  have second: "hd cs \<notin> set ''xX'' \<and> hd cs \<notin> set ''oO'' \<and> hd cs \<notin> set ''bB''" if "cs \<noteq> []"
  proof -
    from that cs have "decimal (hd cs)" by (cases cs) simp_all
    from decimal_plain [OF this] show ?thesis by blast
  qed
  have x: "\<not> (c = CHR ''0'' \<and> cs \<noteq> [] \<and> hd cs \<in> set ''xX'')"
    and o: "\<not> (c = CHR ''0'' \<and> cs \<noteq> [] \<and> hd cs \<in> set ''oO'')"
    and b: "\<not> (c = CHR ''0'' \<and> cs \<noteq> [] \<and> hd cs \<in> set ''bB'')"
    using second by blast+
  show ?thesis
    unfolding StringToBigInt_def trim list.case if_not_P [OF x] if_not_P [OF o] if_not_P [OF b]
      if_not_P [OF sign(1)] if_not_P [OF sign(2)] ..
qed

lemma StringToBigInt_nat_digits: "StringToBigInt (nat_digits n) = Some (int n)"
proof -
  obtain c cs where cs: "nat_digits n = c # cs"
    using nat_digits_nonempty [of n] by (cases "nat_digits n") auto
  with nat_digits_decimal [of n] have "decimal c" "list_all decimal cs" by simp_all
  from StringToBigInt_decimal [OF this] parse_nat_digits [of n] cs show ?thesis
    by (simp add: parse_radix_def)
qed

lemma StringToBigInt_minus_nat_digits: "StringToBigInt (CHR ''-'' # nat_digits n) = Some (- int n)"
proof -
  have "\<forall>x \<in> set (CHR ''-'' # nat_digits n). \<not> is_ws x"
    using nat_digits_decimal [of n] by (auto simp: decimal_not_ws list_all_iff) (simp add: is_ws_def)
  then have trim: "js_trim (CHR ''-'' # nat_digits n) = CHR ''-'' # nat_digits n"
    by (rule js_trim_no_ws)
  show ?thesis
    using parse_nat_digits [of n] nat_digits_nonempty [of n]
    by (simp add: StringToBigInt_def trim parse_radix_def)
qed

lemma StringToBigInt_int_toString: "StringToBigInt (int_toString i) = Some i"
  by (simp add: int_toString_def StringToBigInt_nat_digits StringToBigInt_minus_nat_digits)

lemma toBigInt_JNum: "toBigInt (JNum n) = Inr n"
  by (simp add: toBigInt_def StringToBigInt_int_toString)





lemma unsigned_undefined [simp]: "unsigned_amount JUndefined"
  by (simp add: unsigned_amount_def)

lemma js_get_undefined [simp]: "js_get JUndefined q = JUndefined"
  by (simp add: js_get_def)



lemma withTimeout_resolved:
  "withTimeout cfg (Settles 0 (Inr v)) label tmo w = (Inr v, w)"
  by (simp add: withTimeout_def Let_def)


lemma StringToBigInt_examples:
  "StringToBigInt ''5000'' = Some 5000" "StringToBigInt ''300'' = Some 300"
  "StringToBigInt ''-5'' = Some (- 5)" "StringToBigInt ''5250'' = Some 5250"
  by (simp_all add: StringToBigInt_def js_trim_def is_ws_def parse_radix_def digit_value_def)

lemma int_toString_examples:
  "int_toString 100 = ''100''" "int_toString 250 = ''250''" "int_toString 5000 = ''5000''"
  "int_toString 5250 = ''5250''" "int_toString (- 5) = ''-5''" "int_toString 95 = ''95''"
  "int_toString 5100 = ''5100''"
  by (simp_all add: int_toString_def nat_digits.simps digit_char_def)

lemma resolve_generic_p95: "resolveInclusionFee generic_p95_stats = Inr 250"
  by (simp add: resolveInclusionFee_def generic_p95_stats_def js_get_def rec_get_def js_or_def
      toBigInt_def StringToBigInt_250)

lemma resolve_empty: "resolveInclusionFee (JObj []) = Inr 100"
  by (simp add: resolveInclusionFee_def js_get_def rec_get_def js_or_def toBigInt_BASE_FEE)

lemma truthy_generic_p95: "truthy generic_p95_stats"
  by (simp add: generic_p95_stats_def)

lemma simulate_stats_server:
  "simulateTransaction fake_config (stats_server fee stats)
     (build_transaction fake_config getSimulationAccount swap_operation) start =
   (Inr \<lparr>sim_minResourceFee = fee, sim_result = None\<rparr>,
    \<lparr>clock = 0,
     trace = [(0, SimulateTransaction (build_transaction fake_config getSimulationAccount swap_operation))]\<rparr>)"
  by (simp add: simulateTransaction_def stats_server_def fake_server_def fake_config_def start_def
      withTimeout_def timeout_budget_def remote_def)




subsection \<open>The fee selection\<close>

lemma js_get_falsy: "\<not> truthy b \<Longrightarrow> js_get b q = JUndefined"
  by (cases b) (simp_all add: js_get_def)

lemma find_truthy3:
  "find truthy [a, b, c] = None \<Longrightarrow> \<not> truthy (js_or (js_or a b) c)"
  "find truthy [a, b, c] = Some x \<Longrightarrow> js_or (js_or a b) c = x \<and> truthy x"
  by (auto simp: js_or_def split: if_splits)

lemma find_truthy4:
  "find truthy [a, b, c, d] = Some x \<Longrightarrow> js_or (js_or (js_or a b) c) d = x \<and> truthy x"
  "find truthy [a, b, c] = None \<Longrightarrow> js_or (js_or (js_or a b) c) d = d"
  by (auto simp: js_or_def split: if_splits)

lemma truthy_defined: "truthy x \<Longrightarrow> x \<noteq> JUndefined"
  by auto

lemma resolveInclusionFee_no_bucket:
  assumes "find truthy [js_get fs ''sorobanInclusionFee'', js_get fs ''inclusionFee'', js_get fs ''feeCharged''] = None"
  shows "resolveInclusionFee fs = Inr 100"
proof -
  from find_truthy3(1) [OF assms]
  have "\<And>q. js_get (js_or (js_or (js_get fs ''sorobanInclusionFee'') (js_get fs ''inclusionFee''))
                  (js_get fs ''feeCharged'')) q = JUndefined"
    by (rule js_get_falsy)
  then show ?thesis
    by (simp add: resolveInclusionFee_def js_or_def [of JUndefined] toBigInt_BASE_FEE)
qed

lemma resolveInclusionFee_bucket:
  assumes b: "find truthy [js_get fs ''sorobanInclusionFee'', js_get fs ''inclusionFee'', js_get fs ''feeCharged''] = Some b"
  shows "find truthy [js_get b ''p95'', js_get b ''max'', js_get b ''mode'', js_get b ''min''] = Some v
           \<Longrightarrow> resolveInclusionFee fs = toBigInt v"
    and "find truthy [js_get b ''p95'', js_get b ''max'', js_get b ''mode''] = None \<Longrightarrow>
         js_get b ''min'' = JUndefined \<Longrightarrow> resolveInclusionFee fs = Inr 100"
proof -
  from find_truthy3(2) [OF b]
  have bucket: "js_or (js_or (js_get fs ''sorobanInclusionFee'') (js_get fs ''inclusionFee''))
                  (js_get fs ''feeCharged'') = b" by simp
  {
    assume "find truthy [js_get b ''p95'', js_get b ''max'', js_get b ''mode'', js_get b ''min''] = Some v"
    from find_truthy4(1) [OF this]
    have "js_or (js_or (js_or (js_get b ''p95'') (js_get b ''max'')) (js_get b ''mode'')) (js_get b ''min'') = v"
      and "v \<noteq> JUndefined" by (auto dest: truthy_defined)
    then show "resolveInclusionFee fs = toBigInt v"
      by (simp add: resolveInclusionFee_def bucket)
  }
  {
    assume "find truthy [js_get b ''p95'', js_get b ''max'', js_get b ''mode''] = None"
      and m: "js_get b ''min'' = JUndefined"
    from find_truthy4(2) [OF this(1), of "js_get b ''min''"] m
    have "js_or (js_or (js_or (js_get b ''p95'') (js_get b ''max'')) (js_get b ''mode'')) (js_get b ''min'')
            = JUndefined" by simp
    then show "resolveInclusionFee fs = Inr 100"
      by (simp add: resolveInclusionFee_def bucket toBigInt_BASE_FEE)
  }
qed

lemma resolveInclusionFee_selection:
  "(find truthy [js_get fs ''sorobanInclusionFee'', js_get fs ''inclusionFee'', js_get fs ''feeCharged''] = None
      \<longrightarrow> resolveInclusionFee fs = Inr 100) \<and>
   (\<forall>b. find truthy [js_get fs ''sorobanInclusionFee'', js_get fs ''inclusionFee'', js_get fs ''feeCharged'']
          = Some b \<longrightarrow>
      (\<forall>v. find truthy [js_get b ''p95'', js_get b ''max'', js_get b ''mode'', js_get b ''min''] = Some v
            \<longrightarrow> resolveInclusionFee fs = toBigInt v) \<and>
      (find truthy [js_get b ''p95'', js_get b ''max'', js_get b ''mode''] = None \<and>
       js_get b ''min'' = JUndefined \<longrightarrow> resolveInclusionFee fs = Inr 100))"
  using resolveInclusionFee_no_bucket [of fs] resolveInclusionFee_bucket [of fs]
  by blast


lemma estimateFees_without_stats:
  assumes "simulateTransaction cfg srv (build_transaction cfg getSimulationAccount operation) w = (Inr sim, w1)"
    and "toBigInt (js_or (sim_minResourceFee sim) (JStr ''0'')) = Inr r"
    and "rpc_getFeeStats srv = None"
  shows "estimateFees cfg srv operation w =
           (Inr \<lparr>fe_inclusionFee = ''100'', fe_resourceFee = int_toString r,
                 fe_totalFee = int_toString (100 + r)\<rparr>, w1)"
  using assms
  by (simp add: estimateFees_def withTimeout_resolved js_or_def resolve_empty int_toString_examples)

lemma estimateFees_with_stats:
  assumes "simulateTransaction cfg srv (build_transaction cfg getSimulationAccount operation) w = (Inr sim, w1)"
    and "toBigInt (js_or (sim_minResourceFee sim) (JStr ''0'')) = Inr r"
    and "rpc_getFeeStats srv = Some g"
    and "g (remote GetFeeStats w1) = Settles d (Inr stats)"
    and "int d < timer_delay (apiTimeout cfg)"
    and "resolveInclusionFee (js_or stats (JObj [])) = Inr i"
  shows "fst (estimateFees cfg srv operation w) =
           Inr \<lparr>fe_inclusionFee = int_toString i, fe_resourceFee = int_toString r,
                fe_totalFee = int_toString (i + r)\<rparr>"
  using assms
  by (simp add: estimateFees_def withTimeout_def timeout_budget_def)

subsection \<open>The trace of an invocation\<close>

lemma continues_refl [simp]: "continues w w"
  by (simp add: continues_def)

lemma continues_trans: "continues w w1 \<Longrightarrow> continues w1 w2 \<Longrightarrow> continues w w2"
  by (auto simp: continues_def)

lemma continues_remote: "\<not> is_simulation e \<Longrightarrow> continues w (remote e w)"
  by (simp add: continues_def remote_def)

lemma continues_withTimeout: "withTimeout cfg p l t w0 = (r, w') \<Longrightarrow> continues w w0 \<Longrightarrow> continues w w'"
  by (auto simp: continues_def dest!: withTimeout_trace)

lemma continues_call:
  "withTimeout cfg p l t (remote e w) = (r, w') \<Longrightarrow> \<not> is_simulation e \<Longrightarrow> continues w w'"
  by (erule continues_withTimeout) (rule continues_remote)

lemma poll_pattern_no_simulation: "\<forall>e \<in> set (poll_pattern h a n @ last_query h r). \<not> is_simulation e"
  by (auto simp: poll_pattern_def last_query_def)

lemma continues_waitForTransaction:
  assumes "waitForTransaction cfg srv h t w = (r, w')"
  shows "continues w w'"
proof -
  from loop_shape [OF assms [unfolded waitForTransaction_def]] obtain n es where
    tr: "trace w' = trace w @ es" and shape: "map snd es = poll_pattern h 0 n @ last_query h r"
    by blast
  have "\<not> is_simulation (snd e)" if "e \<in> set es" for e
  proof -
    from that have "snd e \<in> set (map snd es)" by simp
    with shape poll_pattern_no_simulation [of h 0 n r] show ?thesis by simp
  qed
  with tr show ?thesis by (auto simp: continues_def)
qed

lemma continues_getContractEvents:
  "getContractEvents cfg k srv h w = (r, w') \<Longrightarrow> continues w w'"
proof (cases "h = []")
  case True
  assume "getContractEvents cfg k srv h w = (r, w')"
  with True show ?thesis by (simp add: getContractEvents_def)
next
  case False
  assume run: "getContractEvents cfg k srv h w = (r, w')"
  obtain x w1 where call: "withTimeout cfg (rpc_getTransaction srv h (remote (GetTransaction h) w))
           ''getTransaction'' None (remote (GetTransaction h) w) = (x, w1)"
    by (cases "withTimeout cfg (rpc_getTransaction srv h (remote (GetTransaction h) w))
           ''getTransaction'' None (remote (GetTransaction h) w)") auto
  from continues_call [OF call] have "continues w w1" by simp
  moreover from run False call have "w' = w1"
    by (cases x) (auto simp: getContractEvents_def split: if_splits)
  ultimately show ?thesis by simp
qed

text \<open>What follows the simulation makes no simulation.\<close>

lemma continues_submit_and_confirm:
  assumes run: "submit_and_confirm cfg k srv contractId meth options kp tx simulation w = (r, w')"
  shows "continues w w'"
proof -
  obtain rp w1 where prep: "withTimeout cfg
          (rpc_prepareTransaction srv tx (remote (PrepareTransaction tx) w))
          ''prepareTransaction'' (timeoutMs options) (remote (PrepareTransaction tx) w) = (rp, w1)"
    by (cases "withTimeout cfg
          (rpc_prepareTransaction srv tx (remote (PrepareTransaction tx) w))
          ''prepareTransaction'' (timeoutMs options) (remote (PrepareTransaction tx) w)") auto
  from continues_call [OF prep] have e1: "continues w w1" by simp
  show ?thesis
  proof (cases rp)
    case (Inl e)
    with run prep e1 show ?thesis by (simp add: submit_and_confirm_def)
  next
    case (Inr prepared)
    obtain rs w2 where send: "withTimeout cfg
          (rpc_sendTransaction srv (sign kp prepared) (remote (SendTransaction (sign kp prepared)) w1))
          ''sendTransaction'' (timeoutMs options) (remote (SendTransaction (sign kp prepared)) w1) = (rs, w2)"
      by (cases "withTimeout cfg
          (rpc_sendTransaction srv (sign kp prepared) (remote (SendTransaction (sign kp prepared)) w1))
          ''sendTransaction'' (timeoutMs options) (remote (SendTransaction (sign kp prepared)) w1)") auto
    from continues_call [OF send] have "continues w1 w2" by simp
    with e1 have e2: "continues w w2" by (blast intro: continues_trans)
    show ?thesis
    proof (cases rs)
      case (Inl e)
      with run prep Inr send e2 show ?thesis by (simp add: submit_and_confirm_def)
    next
      case sent: (Inr sendResponse)
      show ?thesis
      proof (cases "send_status sendResponse = ''ERROR'' \<or> send_hash sendResponse = None \<or>
                    send_hash sendResponse = Some []")
        case True
        with run prep Inr send sent have "w' = w2"
          by (auto simp: submit_and_confirm_def split: if_splits option.splits)
        with e2 show ?thesis by simp
      next
        case False
        then obtain h where h: "send_hash sendResponse = Some h" "h \<noteq> []"
          "send_status sendResponse \<noteq> ''ERROR''" by auto
        obtain rc w3 where conf: "waitForTransaction cfg srv h (timeoutMs options) w2 = (rc, w3)"
          by (cases "waitForTransaction cfg srv h (timeoutMs options) w2") auto
        from continues_waitForTransaction [OF conf] e2 have e3: "continues w w3"
          by (blast intro: continues_trans)
        show ?thesis
        proof (cases rc)
          case (Inl e)
          with run prep Inr send sent h conf e3 show ?thesis by (simp add: submit_and_confirm_def)
        next
          case confirmed: (Inr c)
          obtain re w4 where ev: "getContractEvents cfg k srv h w3 = (re, w4)"
            by (cases "getContractEvents cfg k srv h w3") auto
          from continues_getContractEvents [OF ev] e3 have e4: "continues w w4"
            by (blast intro: continues_trans)
          from run prep Inr send sent h conf confirmed ev have "w' = w4"
            by (cases re) (auto simp: submit_and_confirm_def)
          with e4 show ?thesis by simp
        qed
      qed
    qed
  qed
qed

text \<open>An effect that occurs once in a list splits the list in one way only.\<close>

lemma unique_split:
  assumes "xs @ x # ys = pre @ y # post" and "P x"
    and "\<forall>e \<in> set pre. \<not> P e" and "\<forall>e \<in> set post. \<not> P e"
  shows "xs = pre \<and> x = y \<and> ys = post"
  using assms
proof (induction xs arbitrary: pre)
  case Nil
  then show ?case by (cases pre) auto
next
  case (Cons a xs)
  show ?case
  proof (cases pre)
    case Nil
    with Cons.prems have "x \<in> set post" by auto
    with Cons.prems show ?thesis by blast
  next
    case (Cons p pre')
    with Cons.prems have "xs @ x # ys = pre' @ y # post" "a = p" "\<forall>e \<in> set pre'. \<not> P e" by simp_all
    from Cons.IH [OF this(1) Cons.prems(2) this(3) Cons.prems(4)] this(2) Cons show ?thesis by simp
  qed
qed

lemma world_eq: "clock w0 = clock w1 \<Longrightarrow> trace w0 = trace w1 \<Longrightarrow> w0 = (w1 :: world)"
  by simp

text \<open>
  The simulation step of a run, found in its trace: the call is the one that follows the
  account query, and the rest of the run is decided by what the simulation returns.
\<close>

lemma invokeContract_simulation_step:
  assumes run: "invokeContract cfg k srv contractId meth params options w = (r, w')"
    and before: "trace w0 = trace w @ es0"
    and call: "trace w' = trace w0 @ (clock w0, SimulateTransaction tx) # es1"
  shows "\<exists>a kp rs w2.
           es0 = [(clock w, GetAccount a)] \<and>
           simulateTransaction cfg srv tx w0 = (rs, w2) \<and>
           (case rs of
              Inl e \<Rightarrow> r = Inl (rethrow contractId meth e) \<and> w' = w2 \<and> es1 = []
            | Inr s \<Rightarrow>
                continues w2 w' \<and>
                (\<exists>r0. submit_and_confirm cfg k srv contractId meth options kp tx s w2 = (r0, w') \<and>
                      r = map_sum (rethrow contractId meth) id r0))"
proof -
  from before call have tr: "trace w' = trace w @ es0 @ (clock w0, SimulateTransaction tx) # es1"
    by simp
  let ?P = "\<lambda>e :: int \<times> effect. is_simulation (snd e)"
  have Px: "?P (clock w0, SimulateTransaction tx)" by simp
  from invokeContract_cases [OF run] show ?thesis
  proof
    assume "w' = w \<and> (\<exists>m. r = Inl (SorobanException m (Some contractId) (Some meth) NoDetails))"
    with tr show ?thesis by simp
  next
    assume "\<exists>secret r0. invoke_try cfg k srv contractId meth params secret options w = (r0, w') \<and>
        r = map_sum (rethrow contractId meth) id r0"
    then obtain secret r0 where
      body: "invoke_try cfg k srv contractId meth params secret options w = (r0, w')" and
      r: "r = map_sum (rethrow contractId meth) id r0" by blast
    from invoke_try_cases [OF body] show ?thesis
    proof (elim disjE exE conjE)
      fix e assume "trace w' = trace w"
      with tr show ?thesis by simp
    next
      fix e a assume "trace w' = trace w @ [(clock w, GetAccount a)]"
      with tr have "es0 @ (clock w0, SimulateTransaction tx) # es1 = [(clock w, GetAccount a)]" by simp
      then show ?thesis by (cases es0) auto
    next
      fix sourceKeypair a tx1 w1 rs w2
      assume tr1: "trace w1 = trace w @ [(clock w, GetAccount a)]"
        and sim: "simulateTransaction cfg srv tx1 w1 = (rs, w2)"
        and rest: "case rs of Inl e \<Rightarrow> r0 = Inl e \<and> w' = w2
                   | Inr simulation \<Rightarrow>
                       submit_and_confirm cfg k srv contractId meth options sourceKeypair tx1 simulation w2 = (r0, w')"
      note tr2 = simulateTransaction_trace [OF sim]
      have cont: "continues w2 w'"
      proof (cases rs)
        case (Inl e)
        with rest show ?thesis by simp
      next
        case (Inr simulation)
        with rest show ?thesis by (auto dest: continues_submit_and_confirm)
      qed
      then obtain es2 where es2: "trace w' = trace w2 @ es2" "\<forall>e \<in> set es2. \<not> ?P e"
        by (auto simp: continues_def)
      with tr tr1 tr2
      have "es0 @ (clock w0, SimulateTransaction tx) # es1
              = [(clock w, GetAccount a)] @ (clock w1, SimulateTransaction tx1) # es2" by simp
      from unique_split [where P = ?P, OF this Px _ es2(2)]
      have same: "es0 = [(clock w, GetAccount a)]" "clock w0 = clock w1" "tx = tx1" "es1 = es2" by simp_all
      with before tr1 have "w0 = w1" by (intro world_eq) simp_all
      with sim same have sim0: "simulateTransaction cfg srv tx w0 = (rs, w2)" by simp
      have "case rs of
              Inl e \<Rightarrow> r = Inl (rethrow contractId meth e) \<and> w' = w2 \<and> es1 = []
            | Inr s \<Rightarrow>
                continues w2 w' \<and>
                (\<exists>r0. submit_and_confirm cfg k srv contractId meth options sourceKeypair tx s w2 = (r0, w') \<and>
                      r = map_sum (rethrow contractId meth) id r0)"
      proof (cases rs)
        case (Inl e)
        with rest r es2(1) same show ?thesis by simp
      next
        case (Inr s)
        with rest r cont same show ?thesis by auto
      qed
      with same(1) sim0 show ?thesis by blast
    qed
  qed
qed

lemma simulateTransaction_Inr_in_time:
  "simulateTransaction cfg srv tx w = (Inr s, w') \<Longrightarrow>
     \<exists>d. rpc_simulateTransaction srv tx (remote (SimulateTransaction tx) w) = Settles d (Inr (SimulationSuccess s)) \<and>
         int d < timer_delay (apiTimeout cfg)"
  by (auto simp: simulateTransaction_def andThen_def timeout_budget_def dest!: withTimeout_Inr
      split: sum.splits simulation.splits prod.splits)

lemma submission_needs_simulation:
  assumes run: "invokeContract cfg k srv contractId meth params options w = (r, w')"
    and sent: "\<exists>stx. SendTransaction stx \<in> set (effects_since w w')"
  shows "\<exists>tx w0 d s es0 es1.
           trace w0 = trace w @ es0 \<and> (\<forall>stx. SendTransaction stx \<notin> snd ` set es0) \<and>
           trace w' = trace w0 @ (clock w0, SimulateTransaction tx) # es1 \<and>
           rpc_simulateTransaction srv tx (remote (SimulateTransaction tx) w0)
             = Settles d (Inr (SimulationSuccess s)) \<and>
           int d < timer_delay (apiTimeout cfg)"
  using invokeContract_cases [OF run]
proof
  assume "w' = w \<and> (\<exists>m. r = Inl (SorobanException m (Some contractId) (Some meth) NoDetails))"
  with sent show ?thesis by simp
next
  assume "\<exists>secret r0. invoke_try cfg k srv contractId meth params secret options w = (r0, w') \<and>
        r = map_sum (rethrow contractId meth) id r0"
  then obtain secret r0 where
    body: "invoke_try cfg k srv contractId meth params secret options w = (r0, w')" by blast
  from invoke_try_cases [OF body] show ?thesis
  proof (elim disjE exE conjE)
    fix e assume "trace w' = trace w"
    with sent show ?thesis by simp
  next
    fix e a assume "trace w' = trace w @ [(clock w, GetAccount a)]"
    with sent show ?thesis by simp
  next
    fix sourceKeypair a tx w1 rs w2
    assume tr1: "trace w1 = trace w @ [(clock w, GetAccount a)]"
      and sim: "simulateTransaction cfg srv tx w1 = (rs, w2)"
      and rest: "case rs of Inl e \<Rightarrow> r0 = Inl e \<and> w' = w2
                 | Inr simulation \<Rightarrow>
                     submit_and_confirm cfg k srv contractId meth options sourceKeypair tx simulation w2 = (r0, w')"
    note tr2 = simulateTransaction_trace [OF sim]
    show ?thesis
    proof (cases rs)
      case (Inl e)
      with rest tr1 tr2 have "trace w' = trace w @ [(clock w, GetAccount a), (clock w1, SimulateTransaction tx)]"
        by simp
      with sent show ?thesis by simp
    next
      case (Inr simulation)
      with rest have "submit_and_confirm cfg k srv contractId meth options sourceKeypair tx simulation w2 = (r0, w')"
        by simp
      from continues_submit_and_confirm [OF this] obtain es1 where "trace w' = trace w2 @ es1"
        by (auto simp: continues_def)
      with tr2 have tr: "trace w' = trace w1 @ (clock w1, SimulateTransaction tx) # es1" by simp
      from simulateTransaction_Inr_in_time [OF sim [unfolded Inr]] obtain d where
        "rpc_simulateTransaction srv tx (remote (SimulateTransaction tx) w1)
           = Settles d (Inr (SimulationSuccess simulation))" "int d < timer_delay (apiTimeout cfg)" by blast
      with tr1 tr show ?thesis
        by (intro exI [of _ tx] exI [of _ w1] exI [of _ d] exI [of _ simulation]
            exI [of _ "[(clock w, GetAccount a)]"] exI [of _ es1]) simp
    qed
  qed
qed


lemma confirmation_timeout_run:
  "fst (invokeContract fake_config fake_sdk (polling_server 10) ''C1'' ''swap'' [JNum 42]
          \<lparr>sourceSecret = Some ''SECRET'', sourceAccount = None, timeoutMs = Some 5000\<rparr> start)
     = Inl (SorobanException ''Timed out waiting for Soroban transaction'' None None NoDetails)"
  by (simp add: invokeContract_def invoke_try_def submit_and_confirm_def polling_server_def
      fake_config_def fake_sdk_def fake_server_def
      start_def source_of_def withTimeout_def timeout_budget_def remote_def sleep_def
      buildContractOperation_def toScVal_def simulateTransaction_def
      waitForTransaction_def waitForTransaction_loop.simps pending_response_def success_response_def)

lemma invalid_secret_run:
  "invokeContract fake_config fake_sdk (polling_server 0) ''C1'' ''swap'' [JNum 42]
     \<lparr>sourceSecret = Some ''BAD'', sourceAccount = None, timeoutMs = None\<rparr> start
     = (Inl (SorobanException ''invalid encoded string'' (Some ''C1'') (Some ''swap'')
               (CauseDetails (ErrorObj ''invalid encoded string''))), start)"
  by (simp add: invokeContract_def invoke_try_def fake_sdk_def)

lemma flaky_run:
  "invokeContract fake_config fake_sdk flaky_server ''C1'' ''swap'' [JNum 42] secret_options start =
   (Inl (SorobanException ''Simulation failed: boom'' None None NoDetails),
    \<lparr>clock = 0,
     trace = [(0, GetAccount ''GSOURCE''),
              (0, SimulateTransaction
                    (build_transaction fake_config \<lparr>acc_id = ''GSOURCE'', acc_sequence = ''1''\<rparr>
                       (InvokeContract ''C1'' ''swap'' [ScVal ''AAAAAwAAACo=''])))]\<rparr>)"
  by (simp add: invokeContract_def invoke_try_def fake_config_def fake_sdk_def flaky_server_def
      scripted_server_def fake_server_def
      secret_options_def start_def source_of_def withTimeout_def timeout_budget_def remote_def
      buildContractOperation_def toScVal_def simulateTransaction_def)

lemma first_zero_run:
  "invokeContract fake_config fake_sdk first_zero_server ''C1'' ''swap'' [JNum 42] secret_options start =
     (Inr \<lparr>cr_success = True, cr_hash = Some ''abc123'', cr_status = Some ''SUCCESS'',
           cr_result = JUndefined, cr_events = [], cr_feeCharged = Some ''100'', cr_error = None\<rparr>,
      \<lparr>clock = 0,
       trace =
         [(0, GetAccount ''GSOURCE''),
          (0, SimulateTransaction
                (build_transaction fake_config \<lparr>acc_id = ''GSOURCE'', acc_sequence = ''1''\<rparr>
                   (InvokeContract ''C1'' ''swap'' [ScVal ''AAAAAwAAACo=''])))  ,
          (0, PrepareTransaction
                (build_transaction fake_config \<lparr>acc_id = ''GSOURCE'', acc_sequence = ''1''\<rparr>
                   (InvokeContract ''C1'' ''swap'' [ScVal ''AAAAAwAAACo=''])))  ,
          (0, SendTransaction
                (sign \<lparr>kp_secret = ''SECRET'', kp_publicKey = ''GSOURCE''\<rparr>
                   (build_transaction fake_config \<lparr>acc_id = ''GSOURCE'', acc_sequence = ''1''\<rparr>
                      (InvokeContract ''C1'' ''swap'' [ScVal ''AAAAAwAAACo=''])))),
          (0, GetTransaction ''abc123''),
          (0, GetTransaction ''abc123'')]\<rparr>)"
  by (simp add: invokeContract_def invoke_try_def submit_and_confirm_def first_zero_server_def
      scripted_server_def fake_config_def fake_sdk_def fake_server_def
      secret_options_def start_def source_of_def withTimeout_def timeout_budget_def remote_def
      buildContractOperation_def toScVal_def simulateTransaction_def
      waitForTransaction_def waitForTransaction_loop.simps getContractEvents_def parseEvents_def
      parseScVal_def sim_retval_def success_response_def build_result_def opt_toString_def
      js_toString_def int_toString_def nat_digits.simps digit_char_def)
section \<open>The claims\<close>

subsection \<open>C1: a failed simulation is fatal and nothing is submitted\<close>

text \<open>
  C1. For every invocation request, every endpoint and every run of \<^verbatim>\<open>invokeContract\<close>:
  a run that calls \<^verbatim>\<open>sendTransaction\<close> has, before that call, called \<^verbatim>\<open>simulateTransaction\<close>
  and received a successful simulation in time; and for every \<^verbatim>\<open>simulateTransaction\<close> call
  that the run makes, if the endpoint answers this call with the error \<open>diag\<close> then the run
  fails with the exception \<^verbatim>\<open>Simulation failed: diag\<close>, which carries the remote diagnostic,
  and if the endpoint does not answer this call with a success in time (it answers with an
  error, rejects, or is late) then the run fails, the call is the last effect of the run
  (no retry, nothing prepared, nothing submitted after it), and the whole run has made no
  \<^verbatim>\<open>prepareTransaction\<close> and no \<^verbatim>\<open>sendTransaction\<close> call. The answer is the one the endpoint gives
  to this call, whatever it answers to other calls.
\<close>

theorem invokeContract_failed_simulation_never_submits:
  assumes run: "invokeContract cfg k srv contractId meth params options w = (r, w')"
  shows "((\<exists>stx. SendTransaction stx \<in> set (effects_since w w')) \<longrightarrow>
            (\<exists>tx w0 d s es0 es1.
               trace w0 = trace w @ es0 \<and> (\<forall>stx. SendTransaction stx \<notin> snd ` set es0) \<and>
               trace w' = trace w0 @ (clock w0, SimulateTransaction tx) # es1 \<and>
               rpc_simulateTransaction srv tx (remote (SimulateTransaction tx) w0)
                 = Settles d (Inr (SimulationSuccess s)) \<and>
               int d < timer_delay (apiTimeout cfg))) \<and>
         (\<forall>w0 es0 tx es1.
            trace w0 = trace w @ es0 \<and>
            trace w' = trace w0 @ (clock w0, SimulateTransaction tx) # es1 \<longrightarrow>
              (\<forall>d diag.
                 rpc_simulateTransaction srv tx (remote (SimulateTransaction tx) w0)
                   = Settles d (Inr (SimulationError diag)) \<and>
                 int d < timer_delay (apiTimeout cfg) \<longrightarrow>
                   r = Inl (SorobanException (''Simulation failed: '' @ diag) None None NoDetails)) \<and>
              ((\<forall>d s. rpc_simulateTransaction srv tx (remote (SimulateTransaction tx) w0)
                         = Settles d (Inr (SimulationSuccess s)) \<longrightarrow>
                       \<not> int d < timer_delay (apiTimeout cfg)) \<longrightarrow>
                 (\<exists>e. r = Inl e) \<and> es1 = [] \<and>
                 (\<forall>stx. PrepareTransaction stx \<notin> set (effects_since w w') \<and>
                        SendTransaction stx \<notin> set (effects_since w w'))))"
proof -
  have sent: "(\<exists>stx. SendTransaction stx \<in> set (effects_since w w')) \<longrightarrow>
            (\<exists>tx w0 d s es0 es1.
               trace w0 = trace w @ es0 \<and> (\<forall>stx. SendTransaction stx \<notin> snd ` set es0) \<and>
               trace w' = trace w0 @ (clock w0, SimulateTransaction tx) # es1 \<and>
               rpc_simulateTransaction srv tx (remote (SimulateTransaction tx) w0)
                 = Settles d (Inr (SimulationSuccess s)) \<and>
               int d < timer_delay (apiTimeout cfg))"
    using submission_needs_simulation [OF run] by blast
  have each: "(\<forall>d diag.
                 rpc_simulateTransaction srv tx (remote (SimulateTransaction tx) w0)
                   = Settles d (Inr (SimulationError diag)) \<and>
                 int d < timer_delay (apiTimeout cfg) \<longrightarrow>
                   r = Inl (SorobanException (''Simulation failed: '' @ diag) None None NoDetails)) \<and>
              ((\<forall>d s. rpc_simulateTransaction srv tx (remote (SimulateTransaction tx) w0)
                         = Settles d (Inr (SimulationSuccess s)) \<longrightarrow>
                       \<not> int d < timer_delay (apiTimeout cfg)) \<longrightarrow>
                 (\<exists>e. r = Inl e) \<and> es1 = [] \<and>
                 (\<forall>stx. PrepareTransaction stx \<notin> set (effects_since w w') \<and>
                        SendTransaction stx \<notin> set (effects_since w w')))"
    if step: "trace w0 = trace w @ es0 \<and>
            trace w' = trace w0 @ (clock w0, SimulateTransaction tx) # es1" for w0 es0 tx es1
  proof -
    from step have before: "trace w0 = trace w @ es0"
      and call: "trace w' = trace w0 @ (clock w0, SimulateTransaction tx) # es1" by simp_all
    from invokeContract_simulation_step [OF run before call] obtain a kp rs w2 where
      es0: "es0 = [(clock w, GetAccount a)]" and
      sim: "simulateTransaction cfg srv tx w0 = (rs, w2)" and
      rest: "case rs of
               Inl e \<Rightarrow> r = Inl (rethrow contractId meth e) \<and> w' = w2 \<and> es1 = []
             | Inr s \<Rightarrow>
                 continues w2 w' \<and>
                 (\<exists>r0. submit_and_confirm cfg k srv contractId meth options kp tx s w2 = (r0, w') \<and>
                       r = map_sum (rethrow contractId meth) id r0)"
      by blast
    have failed: "r = Inl (SorobanException (''Simulation failed: '' @ diag) None None NoDetails)"
      if "rpc_simulateTransaction srv tx (remote (SimulateTransaction tx) w0)
                   = Settles d (Inr (SimulationError diag)) \<and>
          int d < timer_delay (apiTimeout cfg)" for d diag
    proof -
      from that have "rpc_simulateTransaction srv tx (remote (SimulateTransaction tx) w0)
                   = Settles d (Inr (SimulationError diag))" "int d < timer_delay (apiTimeout cfg)"
        by simp_all
      from simulateTransaction_error [OF this] sim
      have "rs = Inl (SorobanException (''Simulation failed: '' @ diag) None None NoDetails)" by simp
      with rest show ?thesis by simp
    qed
    have stopped: "(\<exists>e. r = Inl e) \<and> es1 = [] \<and>
                 (\<forall>stx. PrepareTransaction stx \<notin> set (effects_since w w') \<and>
                        SendTransaction stx \<notin> set (effects_since w w'))"
      if none: "\<forall>d s. rpc_simulateTransaction srv tx (remote (SimulateTransaction tx) w0)
                         = Settles d (Inr (SimulationSuccess s)) \<longrightarrow>
                       \<not> int d < timer_delay (apiTimeout cfg)"
    proof -
      from sim none obtain e where "rs = Inl e"
        by (cases rs) (auto dest!: simulateTransaction_Inr_in_time)
      with rest have r: "r = Inl (rethrow contractId meth e)" and last: "es1 = []" by simp_all
      from before call es0 last
      have "effects_since w w' = [GetAccount a, SimulateTransaction tx]"
        by (simp add: effects_since_def)
      with r last show ?thesis by simp
    qed
    from failed stopped show ?thesis by blast
  qed
  from sent each show ?thesis by blast
qed

theorem invokeContract_failed_simulation_witness:
  "invokeContract fake_config fake_sdk flaky_server ''C1'' ''swap'' [JNum 42] secret_options start =
     (Inl (SorobanException ''Simulation failed: boom'' None None NoDetails),
      \<lparr>clock = 0,
       trace = [(0, GetAccount ''GSOURCE''),
                (0, SimulateTransaction
                      (build_transaction fake_config \<lparr>acc_id = ''GSOURCE'', acc_sequence = ''1''\<rparr>
                         (InvokeContract ''C1'' ''swap'' [ScVal ''AAAAAwAAACo=''])))]\<rparr>) \<and>
   rpc_simulateTransaction flaky_server
       (build_transaction fake_config \<lparr>acc_id = ''GSOURCE'', acc_sequence = ''1''\<rparr>
          (InvokeContract ''C1'' ''swap'' [ScVal ''AAAAAwAAACo='']))
       (remote (SimulateTransaction
          (build_transaction fake_config \<lparr>acc_id = ''GSOURCE'', acc_sequence = ''1''\<rparr>
             (InvokeContract ''C1'' ''swap'' [ScVal ''AAAAAwAAACo=''])))
          \<lparr>clock = 0, trace = [(0, GetAccount ''GSOURCE'')]\<rparr>)
     = Settles 0 (Inr (SimulationError ''boom'')) \<and>
   int 0 < timer_delay (apiTimeout fake_config) \<and>
   (\<exists>s. rpc_simulateTransaction flaky_server
       (build_transaction fake_config \<lparr>acc_id = ''GSOURCE'', acc_sequence = ''1''\<rparr>
          (InvokeContract ''C1'' ''swap'' [ScVal ''AAAAAwAAACo='']))
       (remote (SimulateTransaction
          (build_transaction fake_config \<lparr>acc_id = ''GSOURCE'', acc_sequence = ''1''\<rparr>
             (InvokeContract ''C1'' ''swap'' [ScVal ''AAAAAwAAACo=''])))
          (snd (invokeContract fake_config fake_sdk flaky_server ''C1'' ''swap'' [JNum 42]
                  secret_options start)))
     = Settles 0 (Inr (SimulationSuccess s))) \<and>
   (\<forall>stx. PrepareTransaction stx \<notin> set (effects_since start (snd
       (invokeContract fake_config fake_sdk flaky_server ''C1'' ''swap'' [JNum 42] secret_options start))) \<and>
     SendTransaction stx \<notin> set (effects_since start (snd
       (invokeContract fake_config fake_sdk flaky_server ''C1'' ''swap'' [JNum 42] secret_options start)))) \<and>
   (\<exists>stx. SendTransaction stx \<in> set (effects_since start (snd
       (invokeContract fake_config fake_sdk zero_retval_server ''C1'' ''swap'' [JNum 42] secret_options start)))) \<and>
   (\<exists>tx w0 d s. rpc_simulateTransaction zero_retval_server tx (remote (SimulateTransaction tx) w0)
       = Settles d (Inr (SimulationSuccess s)))"
proof -
  let ?tx = "build_transaction fake_config \<lparr>acc_id = ''GSOURCE'', acc_sequence = ''1''\<rparr>
               (InvokeContract ''C1'' ''swap'' [ScVal ''AAAAAwAAACo=''])"
  let ?w0 = "\<lparr>clock = 0, trace = [(0, GetAccount ''GSOURCE'')]\<rparr>"
  let ?w' = "\<lparr>clock = 0, trace = [(0, GetAccount ''GSOURCE''), (0, SimulateTransaction ?tx)]\<rparr>"
  have answer: "rpc_simulateTransaction flaky_server ?tx (remote (SimulateTransaction ?tx) ?w0)
     = Settles 0 (Inr (SimulationError ''boom''))"
    by (simp add: flaky_server_def scripted_server_def remote_def)
  have later: "\<exists>s. rpc_simulateTransaction flaky_server ?tx (remote (SimulateTransaction ?tx) ?w')
     = Settles 0 (Inr (SimulationSuccess s))"
    by (simp add: flaky_server_def scripted_server_def remote_def)
  have budget: "int 0 < timer_delay (apiTimeout fake_config)" by simp
  have before: "trace ?w0 = trace start @ [(0, GetAccount ''GSOURCE'')]"
    and call: "trace ?w' = trace ?w0 @ (clock ?w0, SimulateTransaction ?tx) # []"
    by (simp_all add: start_def)
  from invokeContract_failed_simulation_never_submits [OF flaky_run]
  have "\<forall>w0 es0 tx es1.
            trace w0 = trace start @ es0 \<and>
            trace ?w' = trace w0 @ (clock w0, SimulateTransaction tx) # es1 \<longrightarrow>
              ((\<forall>d s. rpc_simulateTransaction flaky_server tx (remote (SimulateTransaction tx) w0)
                         = Settles d (Inr (SimulationSuccess s)) \<longrightarrow>
                       \<not> int d < timer_delay (apiTimeout fake_config)) \<longrightarrow>
                 (\<forall>stx. PrepareTransaction stx \<notin> set (effects_since start ?w') \<and>
                        SendTransaction stx \<notin> set (effects_since start ?w')))"
    by blast
  with before call answer
  have unsent: "\<forall>stx. PrepareTransaction stx \<notin> set (effects_since start ?w') \<and>
                        SendTransaction stx \<notin> set (effects_since start ?w')"
    by (elim allE [of _ ?w0] allE [of _ "[(0, GetAccount ''GSOURCE'')]"] allE [of _ ?tx]
        allE [of _ "[]"]) simp
  have sent: "\<exists>stx. SendTransaction stx \<in> set (effects_since start (snd
       (invokeContract fake_config fake_sdk zero_retval_server ''C1'' ''swap'' [JNum 42] secret_options start)))"
    by (subst zero_retval_run) (simp add: effects_since_def start_def)
  from invokeContract_failed_simulation_never_submits
    [of fake_config fake_sdk zero_retval_server "''C1''" "''swap''" "[JNum 42]" secret_options start
        "fst (invokeContract fake_config fake_sdk zero_retval_server ''C1'' ''swap'' [JNum 42] secret_options start)"
        "snd (invokeContract fake_config fake_sdk zero_retval_server ''C1'' ''swap'' [JNum 42] secret_options start)"]
    sent
  have simulated: "\<exists>tx w0 d s. rpc_simulateTransaction zero_retval_server tx (remote (SimulateTransaction tx) w0)
       = Settles d (Inr (SimulationSuccess s))"
    by simp blast
  from flaky_run answer budget later unsent sent simulated show ?thesis by simp
qed

subsection \<open>C2: the precondition check\<close>

text \<open>
  C2. When \<open>contractId\<close> is empty, \<open>method\<close> is empty, or the source secret is absent (or
  empty), \<^verbatim>\<open>invokeContract\<close> fails at once with a \<^verbatim>\<open>SorobanException\<close> that names the
  contract and the method, and the world is unchanged: the run makes no remote call at all
  (no \<^verbatim>\<open>getAccount\<close>, \<^verbatim>\<open>simulateTransaction\<close>, \<^verbatim>\<open>prepareTransaction\<close>, \<^verbatim>\<open>sendTransaction\<close> or
  \<^verbatim>\<open>getTransaction\<close>) and no time passes.
\<close>

theorem invokeContract_invalid_request:
  assumes "contractId = [] \<or> meth = [] \<or> sourceSecret options = None \<or> sourceSecret options = Some []"
  shows "(\<exists>m. invokeContract cfg k srv contractId meth params options w =
               (Inl (SorobanException m (Some contractId) (Some meth) NoDetails), w)) \<and>
         effects_since w (snd (invokeContract cfg k srv contractId meth params options w)) = []"
proof -
  from invokeContract_precondition [OF assms, of cfg k srv params w]
  obtain m where "invokeContract cfg k srv contractId meth params options w =
      (Inl (SorobanException m (Some contractId) (Some meth) NoDetails), w)" by blast
  then show ?thesis by simp
qed

theorem invokeContract_invalid_request_witness:
  "sourceSecret \<lparr>sourceSecret = None, sourceAccount = None, timeoutMs = None\<rparr> = None \<and>
   invokeContract fake_config fake_sdk (fake_server (SimulationError ''boom'') (\<lambda>n. success_response) None)
     ''C1'' ''swap'' [] \<lparr>sourceSecret = None, sourceAccount = None, timeoutMs = None\<rparr> start =
     (Inl (SorobanException ''Missing source secret for contract invocation''
             (Some ''C1'') (Some ''swap'') NoDetails), start) \<and>
   effects_since start (snd (invokeContract fake_config fake_sdk
       (fake_server (SimulationError ''boom'') (\<lambda>n. success_response) None)
       ''C1'' ''swap'' [] \<lparr>sourceSecret = None, sourceAccount = None, timeoutMs = None\<rparr> start)) = []"
  using invokeContract_invalid_request
    [of "''C1''" "''swap''" "\<lparr>sourceSecret = None, sourceAccount = None, timeoutMs = None\<rparr>"
        fake_config fake_sdk "fake_server (SimulationError ''boom'') (\<lambda>n. success_response) None" "[]" start]
  by (simp add: invokeContract_def)

subsection \<open>C3: the backoff schedule\<close>

text \<open>
  C3. In the confirmation wait loop, for every attempt index \<open>n\<close> (from 0): when the status
  query answers with no status or with \<^verbatim>\<open>PENDING\<close>, the loop sleeps exactly
  \<open>spec_delay n = min (2000 * (n + 1)) 8000\<close> milliseconds and goes on with attempt \<open>n + 1\<close>;
  when it answers with any other status, the response is returned at once, without a
  sleep. So the effects of a whole run of \<^verbatim>\<open>waitForTransaction\<close> are a query and its sleep of
  \<open>spec_delay 0\<close>, a query and its sleep of \<open>spec_delay 1\<close>, and so on (2s, 4s, 6s, 8s, 8s:
  linear and capped, not exponential), ended by the query that was answered, and a response
  that is returned has a status other than \<^verbatim>\<open>PENDING\<close>.
\<close>

theorem waitForTransaction_backoff:
  "(clock w < deadline \<and>
    withTimeout cfg (rpc_getTransaction srv h (remote (GetTransaction h) w))
      ''getTransaction'' tmo (remote (GetTransaction h) w) = (Inr response, w1) \<longrightarrow>
      waitForTransaction_loop cfg srv h tmo deadline n w =
        (if tx_status response = None \<or> tx_status response = Some PENDING
         then waitForTransaction_loop cfg srv h tmo deadline (n + 1) (sleep (spec_delay n) w1)
         else (Inr response, w1))) \<and>
   (waitForTransaction cfg srv h tmo w0 = (r, w') \<longrightarrow>
      (\<exists>m. effects_since w0 w' = poll_pattern h 0 m @ last_query h r) \<and>
      (\<forall>response. r = Inr response \<longrightarrow> settled response))"
proof (intro conjI impI)
  assume "clock w < deadline \<and>
    withTimeout cfg (rpc_getTransaction srv h (remote (GetTransaction h) w))
      ''getTransaction'' tmo (remote (GetTransaction h) w) = (Inr response, w1)"
  then show "waitForTransaction_loop cfg srv h tmo deadline n w =
        (if tx_status response = None \<or> tx_status response = Some PENDING
         then waitForTransaction_loop cfg srv h tmo deadline (n + 1) (sleep (spec_delay n) w1)
         else (Inr response, w1))"
    using loop_step [of w deadline cfg srv h tmo response w1 n] by blast
next
  assume run: "waitForTransaction cfg srv h tmo w0 = (r, w')"
  from loop_shape [OF run [unfolded waitForTransaction_def]]
  obtain m es where "trace w' = trace w0 @ es" "map snd es = poll_pattern h 0 m @ last_query h r"
    by blast
  then show "\<exists>m. effects_since w0 w' = poll_pattern h 0 m @ last_query h r"
    by (auto simp: effects_since_def)
next
  assume run: "waitForTransaction cfg srv h tmo w0 = (r, w')"
  from loop_shape [OF run [unfolded waitForTransaction_def]]
  show "\<forall>response. r = Inr response \<longrightarrow> settled response" by blast
qed

theorem waitForTransaction_backoff_witness:
  "clock start < 30000 \<and>
   withTimeout fake_config (rpc_getTransaction (polling_server 2) ''abc123'' (remote (GetTransaction ''abc123'') start))
      ''getTransaction'' None (remote (GetTransaction ''abc123'') start)
     = (Inr pending_response, remote (GetTransaction ''abc123'') start) \<and>
   waitForTransaction_loop fake_config (polling_server 2) ''abc123'' None 30000 0 start =
     waitForTransaction_loop fake_config (polling_server 2) ''abc123'' None 30000 1
       (sleep 2000 (remote (GetTransaction ''abc123'') start)) \<and>
   waitForTransaction fake_config (polling_server 2) ''abc123'' None start =
     (Inr success_response,
      \<lparr>clock = 6000,
       trace = [(0, GetTransaction ''abc123''), (0, Sleep 2000), (2000, GetTransaction ''abc123''),
                (2000, Sleep 4000), (6000, GetTransaction ''abc123'')]\<rparr>) \<and>
   (\<exists>m. effects_since start
          \<lparr>clock = 6000,
           trace = [(0, GetTransaction ''abc123''), (0, Sleep 2000), (2000, GetTransaction ''abc123''),
                    (2000, Sleep 4000), (6000, GetTransaction ''abc123'')]\<rparr>
        = poll_pattern ''abc123'' 0 m @ last_query ''abc123'' (Inr success_response)) \<and>
   settled success_response \<and>
   map spec_delay [0, 1, 2, 3, 4, 5] = [2000, 4000, 6000, 8000, 8000, 8000]"
proof -
  have call: "withTimeout fake_config
      (rpc_getTransaction (polling_server 2) ''abc123'' (remote (GetTransaction ''abc123'') start))
      ''getTransaction'' None (remote (GetTransaction ''abc123'') start)
     = (Inr pending_response, remote (GetTransaction ''abc123'') start)"
    by (simp add: polling_server_def fake_server_def fake_config_def start_def withTimeout_def
        timeout_budget_def remote_def)
  have before: "clock start < 30000" by (simp add: start_def)
  have pend: "tx_status pending_response = Some PENDING" by (simp add: pending_response_def)
  have d0: "spec_delay 0 = 2000" by (simp add: spec_delay_def)
  from waitForTransaction_backoff
    [of start 30000 fake_config "polling_server 2" "''abc123''" None pending_response
        "remote (GetTransaction ''abc123'') start" 0 start "Inr success_response"
        "\<lparr>clock = 6000,
          trace = [(0, GetTransaction ''abc123''), (0, Sleep 2000), (2000, GetTransaction ''abc123''),
                   (2000, Sleep 4000), (6000, GetTransaction ''abc123'')]\<rparr>"]
    call before pend d0 pending_twice_run spec_delay_values
  show ?thesis by simp
qed



subsection \<open>C4: the confirmation deadline\<close>

text \<open>
  C4. For a caller-supplied timeout that respects the request's invariant (not 0), the
  deadline of \<^verbatim>\<open>waitForTransaction\<close> is computed once, on entry, as the time then plus the
  timeout (the configured default when none is supplied), and the loop runs with that
  deadline whatever the attempt; at the deadline check, once the clock has reached the
  deadline, the loop raises the confirmation timeout without another query. So in a whole
  run every status query starts before the deadline, however many retries there are, and
  a run that ends with the confirmation timeout ends at or after the deadline.
\<close>

theorem waitForTransaction_deadline:
  assumes "tmo \<noteq> Some 0"
  shows "waitForTransaction cfg srv h tmo w =
           waitForTransaction_loop cfg srv h tmo (spec_deadline cfg tmo w) 0 w \<and>
         (\<forall>n w1. spec_deadline cfg tmo w \<le> clock w1 \<longrightarrow>
            waitForTransaction_loop cfg srv h tmo (spec_deadline cfg tmo w) n w1 =
              (Inl confirmation_timeout, w1)) \<and>
         (\<forall>r w'. waitForTransaction cfg srv h tmo w = (r, w') \<longrightarrow>
            (\<forall>x \<in> set (drop (length (trace w)) (trace w')).
               snd x = GetTransaction h \<longrightarrow> fst x < spec_deadline cfg tmo w) \<and>
            (r = Inl confirmation_timeout \<longrightarrow> spec_deadline cfg tmo w \<le> clock w'))"
proof -
  have first: "waitForTransaction cfg srv h tmo w =
           waitForTransaction_loop cfg srv h tmo (spec_deadline cfg tmo w) 0 w"
    using timeout_budget_given [OF assms, of w cfg] by (simp add: waitForTransaction_def)
  have past: "\<forall>n w1. spec_deadline cfg tmo w \<le> clock w1 \<longrightarrow>
            waitForTransaction_loop cfg srv h tmo (spec_deadline cfg tmo w) n w1 =
              (Inl confirmation_timeout, w1)"
    by (simp add: loop_past_deadline)
  have run: "(\<forall>x \<in> set (drop (length (trace w)) (trace w')).
               snd x = GetTransaction h \<longrightarrow> fst x < spec_deadline cfg tmo w) \<and>
            (r = Inl confirmation_timeout \<longrightarrow> spec_deadline cfg tmo w \<le> clock w')"
    if "waitForTransaction cfg srv h tmo w = (r, w')" for r w'
  proof -
    from that first
    have "waitForTransaction_loop cfg srv h tmo (spec_deadline cfg tmo w) 0 w = (r, w')" by simp
    from loop_shape [OF this] obtain m es where shape:
      "trace w' = trace w @ es"
      "\<forall>x \<in> set es. snd x = GetTransaction h \<longrightarrow> fst x < spec_deadline cfg tmo w"
      "r = Inl confirmation_timeout \<longrightarrow> spec_deadline cfg tmo w \<le> clock w'"
      by blast
    then show ?thesis by simp
  qed
  from first past run show ?thesis by blast
qed

theorem waitForTransaction_deadline_witness:
  "Some (5000 :: int) \<noteq> Some 0 \<and>
   spec_deadline fake_config (Some 5000) start = 5000 \<and>
   waitForTransaction fake_config (polling_server 10) ''abc123'' (Some 5000) start =
     (Inl confirmation_timeout,
      \<lparr>clock = 6000,
       trace = [(0, GetTransaction ''abc123''), (0, Sleep 2000), (2000, GetTransaction ''abc123''),
                (2000, Sleep 4000)]\<rparr>) \<and>
   waitForTransaction_loop fake_config (polling_server 10) ''abc123'' (Some 5000) 5000 2
       \<lparr>clock = 6000, trace = []\<rparr> = (Inl confirmation_timeout, \<lparr>clock = 6000, trace = []\<rparr>)"
proof -
  have given: "Some (5000 :: int) \<noteq> Some 0" by simp
  have deadline: "spec_deadline fake_config (Some 5000) start = 5000"
    by (simp add: spec_deadline_def start_def)
  from waitForTransaction_deadline [OF given, of fake_config "polling_server 10" "''abc123''" start]
  have "\<forall>n w1. spec_deadline fake_config (Some 5000) start \<le> clock w1 \<longrightarrow>
            waitForTransaction_loop fake_config (polling_server 10) ''abc123'' (Some 5000)
              (spec_deadline fake_config (Some 5000) start) n w1 = (Inl confirmation_timeout, w1)"
    by blast
  then have "waitForTransaction_loop fake_config (polling_server 10) ''abc123'' (Some 5000) 5000 2
       \<lparr>clock = 6000, trace = []\<rparr> = (Inl confirmation_timeout, \<lparr>clock = 6000, trace = []\<rparr>)"
    by (simp add: deadline)
  with given deadline always_pending_run show ?thesis by simp
qed

subsection \<open>C5: the priority of the fee statistics\<close>

text \<open>
  C5, as stated for every fee-statistics response, fails whatever "available" means: with
  the generic bucket \<^verbatim>\<open>{p95: 0, max: "250"}\<close> the code passes over the 95th percentile and
  uses the maximum, so the number \<open>0\<close> is not available; with the generic bucket
  \<^verbatim>\<open>{min: 0}\<close> the code uses the minimum and not the base fee, so the number \<open>0\<close> is
  available. No reading of "available" makes the specification's selection agree with
  the code on both responses.
\<close>

theorem resolveInclusionFee_counterexample:
  "\<not> (\<exists>available.
         resolveInclusionFee feeStats_zero_p95 = spec_resolveInclusionFee available feeStats_zero_p95 \<and>
         resolveInclusionFee feeStats_zero_min = spec_resolveInclusionFee available feeStats_zero_min)"
proof
  assume "\<exists>available.
         resolveInclusionFee feeStats_zero_p95 = spec_resolveInclusionFee available feeStats_zero_p95 \<and>
         resolveInclusionFee feeStats_zero_min = spec_resolveInclusionFee available feeStats_zero_min"
  then obtain available where
    a: "spec_resolveInclusionFee available feeStats_zero_p95 = Inr 250" and
    b: "spec_resolveInclusionFee available feeStats_zero_min = Inr 0"
    by (auto simp: resolve_zero_p95 resolve_zero_min)
  from a have zero: "\<not> available (JNum 0)"
    by (auto simp: spec_resolveInclusionFee_def feeStats_zero_p95_def js_get_def rec_get_def
        toBigInt_BASE_FEE toBigInt_zero toBigInt_undefined split: if_splits)
  from a have undef: "\<not> available JUndefined"
    by (auto simp: spec_resolveInclusionFee_def feeStats_zero_p95_def js_get_def rec_get_def
        toBigInt_BASE_FEE toBigInt_zero toBigInt_undefined split: if_splits)
  from b zero undef show False
    by (auto simp: spec_resolveInclusionFee_def feeStats_zero_min_def js_get_def rec_get_def
        toBigInt_BASE_FEE toBigInt_zero toBigInt_undefined split: if_splits)
qed

text \<open>
  C5, amended. The bucket is the first truthy one of the Soroban bucket, the generic
  inclusion-fee bucket and the \<^verbatim>\<open>feeCharged\<close> bucket, and in it the first truthy one of the
  95th percentile, the maximum, the mode and the minimum is used (a statistic that is
  present but falsy, as \<open>0\<close> or the empty string, is passed over); the base fee (100) is
  used when no bucket is truthy, and when the bucket's first three statistics are falsy
  and its minimum is missing. In \<^verbatim>\<open>estimateFees\<close>, after a successful simulation with a
  readable resource fee \<open>r\<close>: a missing fee-statistics capability is not an error and gives
  the base fee, and an answer \<open>stats\<close> of the capability gives the fee that
  \<^verbatim>\<open>resolveInclusionFee\<close> selects from \<open>stats\<close>.
\<close>

theorem estimateFees_inclusion_fee_priority:
  "(find truthy [js_get fs ''sorobanInclusionFee'', js_get fs ''inclusionFee'', js_get fs ''feeCharged''] = None
      \<longrightarrow> resolveInclusionFee fs = Inr 100) \<and>
   (\<forall>b. find truthy [js_get fs ''sorobanInclusionFee'', js_get fs ''inclusionFee'', js_get fs ''feeCharged'']
          = Some b \<longrightarrow>
      (\<forall>v. find truthy [js_get b ''p95'', js_get b ''max'', js_get b ''mode'', js_get b ''min''] = Some v
            \<longrightarrow> resolveInclusionFee fs = toBigInt v) \<and>
      (find truthy [js_get b ''p95'', js_get b ''max'', js_get b ''mode''] = None \<and>
       js_get b ''min'' = JUndefined \<longrightarrow> resolveInclusionFee fs = Inr 100)) \<and>
   (simulateTransaction cfg srv (build_transaction cfg getSimulationAccount operation) w = (Inr sim, w1) \<and>
    toBigInt (js_or (sim_minResourceFee sim) (JStr ''0'')) = Inr r \<longrightarrow>
      (rpc_getFeeStats srv = None \<longrightarrow>
         estimateFees cfg srv operation w =
           (Inr \<lparr>fe_inclusionFee = ''100'', fe_resourceFee = int_toString r,
                 fe_totalFee = int_toString (100 + r)\<rparr>, w1)) \<and>
      (\<forall>g d stats i.
         rpc_getFeeStats srv = Some g \<and> g (remote GetFeeStats w1) = Settles d (Inr stats) \<and>
         int d < timer_delay (apiTimeout cfg) \<and> resolveInclusionFee (js_or stats (JObj [])) = Inr i \<longrightarrow>
           fst (estimateFees cfg srv operation w) =
             Inr \<lparr>fe_inclusionFee = int_toString i, fe_resourceFee = int_toString r,
                  fe_totalFee = int_toString (i + r)\<rparr>))"
proof -
  note sel = resolveInclusionFee_selection [of fs]
  have est: "simulateTransaction cfg srv (build_transaction cfg getSimulationAccount operation) w = (Inr sim, w1) \<and>
    toBigInt (js_or (sim_minResourceFee sim) (JStr ''0'')) = Inr r \<longrightarrow>
      (rpc_getFeeStats srv = None \<longrightarrow>
         estimateFees cfg srv operation w =
           (Inr \<lparr>fe_inclusionFee = ''100'', fe_resourceFee = int_toString r,
                 fe_totalFee = int_toString (100 + r)\<rparr>, w1)) \<and>
      (\<forall>g d stats i.
         rpc_getFeeStats srv = Some g \<and> g (remote GetFeeStats w1) = Settles d (Inr stats) \<and>
         int d < timer_delay (apiTimeout cfg) \<and> resolveInclusionFee (js_or stats (JObj [])) = Inr i \<longrightarrow>
           fst (estimateFees cfg srv operation w) =
             Inr \<lparr>fe_inclusionFee = int_toString i, fe_resourceFee = int_toString r,
                  fe_totalFee = int_toString (i + r)\<rparr>)"
  proof (intro impI conjI allI)
    assume a: "simulateTransaction cfg srv (build_transaction cfg getSimulationAccount operation) w = (Inr sim, w1) \<and>
      toBigInt (js_or (sim_minResourceFee sim) (JStr ''0'')) = Inr r"
      and none: "rpc_getFeeStats srv = None"
    from a have s: "simulateTransaction cfg srv (build_transaction cfg getSimulationAccount operation) w = (Inr sim, w1)"
      and t: "toBigInt (js_or (sim_minResourceFee sim) (JStr ''0'')) = Inr r" by simp_all
    from estimateFees_without_stats [OF s t none]
    show "estimateFees cfg srv operation w =
           (Inr \<lparr>fe_inclusionFee = ''100'', fe_resourceFee = int_toString r,
                 fe_totalFee = int_toString (100 + r)\<rparr>, w1)" .
  next
    fix g d stats i
    assume a: "simulateTransaction cfg srv (build_transaction cfg getSimulationAccount operation) w = (Inr sim, w1) \<and>
      toBigInt (js_or (sim_minResourceFee sim) (JStr ''0'')) = Inr r"
      and b: "rpc_getFeeStats srv = Some g \<and> g (remote GetFeeStats w1) = Settles d (Inr stats) \<and>
         int d < timer_delay (apiTimeout cfg) \<and> resolveInclusionFee (js_or stats (JObj [])) = Inr i"
    from a have s: "simulateTransaction cfg srv (build_transaction cfg getSimulationAccount operation) w = (Inr sim, w1)"
      and t: "toBigInt (js_or (sim_minResourceFee sim) (JStr ''0'')) = Inr r" by simp_all
    from b have g: "rpc_getFeeStats srv = Some g" and reply: "g (remote GetFeeStats w1) = Settles d (Inr stats)"
      and d: "int d < timer_delay (apiTimeout cfg)" and i: "resolveInclusionFee (js_or stats (JObj [])) = Inr i"
      by simp_all
    from estimateFees_with_stats [OF s t g reply d i]
    show "fst (estimateFees cfg srv operation w) =
             Inr \<lparr>fe_inclusionFee = int_toString i, fe_resourceFee = int_toString r,
                  fe_totalFee = int_toString (i + r)\<rparr>" .
  qed
  from sel have a: "find truthy [js_get fs ''sorobanInclusionFee'', js_get fs ''inclusionFee'', js_get fs ''feeCharged''] = None
      \<longrightarrow> resolveInclusionFee fs = Inr 100" by (rule conjunct1)
  from sel have b: "\<forall>b. find truthy [js_get fs ''sorobanInclusionFee'', js_get fs ''inclusionFee'', js_get fs ''feeCharged'']
          = Some b \<longrightarrow>
      (\<forall>v. find truthy [js_get b ''p95'', js_get b ''max'', js_get b ''mode'', js_get b ''min''] = Some v
            \<longrightarrow> resolveInclusionFee fs = toBigInt v) \<and>
      (find truthy [js_get b ''p95'', js_get b ''max'', js_get b ''mode''] = None \<and>
       js_get b ''min'' = JUndefined \<longrightarrow> resolveInclusionFee fs = Inr 100)" by (rule conjunct2)
  show ?thesis by (rule conjI [OF a conjI [OF b est]])
qed

theorem estimateFees_inclusion_fee_priority_witness:
  "resolveInclusionFee generic_p95_stats = Inr 250 \<and>
   resolveInclusionFee soroban_max_stats = Inr 300 \<and>
   resolveInclusionFee (JObj []) = Inr 100 \<and>
   estimateFees fake_config (stats_server (JStr ''5000'') None) swap_operation start =
     (Inr \<lparr>fe_inclusionFee = ''100'', fe_resourceFee = ''5000'', fe_totalFee = ''5100''\<rparr>,
      \<lparr>clock = 0,
       trace = [(0, SimulateTransaction (build_transaction fake_config getSimulationAccount swap_operation))]\<rparr>) \<and>
   fst (estimateFees fake_config (stats_server (JStr ''5000'') (Some generic_p95_stats)) swap_operation start) =
     Inr \<lparr>fe_inclusionFee = ''250'', fe_resourceFee = ''5000'', fe_totalFee = ''5250''\<rparr>"
proof -
  have r: "toBigInt (js_or (JStr ''5000'') (JStr ''0'')) = Inr 5000"
    by (simp add: js_or_def toBigInt_def StringToBigInt_examples)
  have b1: "find truthy [js_get generic_p95_stats ''sorobanInclusionFee'',
                         js_get generic_p95_stats ''inclusionFee'', js_get generic_p95_stats ''feeCharged'']
            = Some (JObj [(''p95'', JStr ''250''), (''max'', JStr ''300'')])"
    by (simp add: generic_p95_stats_def js_get_def rec_get_def)
  have v1: "find truthy [js_get (JObj [(''p95'', JStr ''250''), (''max'', JStr ''300'')]) ''p95'',
                         js_get (JObj [(''p95'', JStr ''250''), (''max'', JStr ''300'')]) ''max'',
                         js_get (JObj [(''p95'', JStr ''250''), (''max'', JStr ''300'')]) ''mode'',
                         js_get (JObj [(''p95'', JStr ''250''), (''max'', JStr ''300'')]) ''min'']
            = Some (JStr ''250'')"
    by (simp add: js_get_def rec_get_def)
  have b2: "find truthy [js_get soroban_max_stats ''sorobanInclusionFee'',
                         js_get soroban_max_stats ''inclusionFee'', js_get soroban_max_stats ''feeCharged'']
            = Some (JObj [(''max'', JStr ''300'')])"
    by (simp add: soroban_max_stats_def js_get_def rec_get_def)
  have v2: "find truthy [js_get (JObj [(''max'', JStr ''300'')]) ''p95'',
                         js_get (JObj [(''max'', JStr ''300'')]) ''max'',
                         js_get (JObj [(''max'', JStr ''300'')]) ''mode'',
                         js_get (JObj [(''max'', JStr ''300'')]) ''min'']
            = Some (JStr ''300'')"
    by (simp add: js_get_def rec_get_def)
  have b3: "find truthy [js_get (JObj []) ''sorobanInclusionFee'',
                         js_get (JObj []) ''inclusionFee'', js_get (JObj []) ''feeCharged''] = None"
    by (simp add: js_get_def rec_get_def)
  have big: "toBigInt (JStr ''250'') = Inr 250" "toBigInt (JStr ''300'') = Inr 300"
    by (simp_all add: toBigInt_def StringToBigInt_250 StringToBigInt_examples)
  have none: "rpc_getFeeStats (stats_server (JStr ''5000'') None) = None"
    by (simp add: stats_server_def fake_server_def)
  have some: "rpc_getFeeStats (stats_server (JStr ''5000'') (Some generic_p95_stats))
                = Some (\<lambda>w. Settles 0 (Inr generic_p95_stats))"
    by (simp add: stats_server_def fake_server_def)
  have budget: "int 0 < timer_delay (apiTimeout fake_config)" by simp
  have chosen: "resolveInclusionFee (js_or generic_p95_stats (JObj [])) = Inr 250"
    by (simp add: js_or_def truthy_generic_p95 resolve_generic_p95)
  let ?sim = "\<lparr>sim_minResourceFee = JStr ''5000'', sim_result = None\<rparr>"
  let ?w1 = "\<lparr>clock = 0,
       trace = [(0, SimulateTransaction (build_transaction fake_config getSimulationAccount swap_operation))]\<rparr>"
  note p1 = estimateFees_inclusion_fee_priority [of generic_p95_stats fake_config
      "stats_server (JStr ''5000'') None" swap_operation start ?sim ?w1 5000]
  note p2 = estimateFees_inclusion_fee_priority [of soroban_max_stats fake_config
      "stats_server (JStr ''5000'') (Some generic_p95_stats)" swap_operation start ?sim ?w1 5000]
  note p3 = estimateFees_inclusion_fee_priority [of "JObj []" fake_config
      "stats_server (JStr ''5000'') None" swap_operation start ?sim ?w1 5000]
  from p1 b1 v1 have "resolveInclusionFee generic_p95_stats = toBigInt (JStr ''250'')" by blast
  with big have w1: "resolveInclusionFee generic_p95_stats = Inr 250" by simp
  from p2 b2 v2 have "resolveInclusionFee soroban_max_stats = toBigInt (JStr ''300'')" by blast
  with big have w2: "resolveInclusionFee soroban_max_stats = Inr 300" by simp
  from p3 b3 have w3: "resolveInclusionFee (JObj []) = Inr 100" by blast
  have sim1: "simulateTransaction fake_config (stats_server (JStr ''5000'') None)
     (build_transaction fake_config getSimulationAccount swap_operation) start = (Inr ?sim, ?w1)"
    by (rule simulate_stats_server)
  have sim2: "simulateTransaction fake_config (stats_server (JStr ''5000'') (Some generic_p95_stats))
     (build_transaction fake_config getSimulationAccount swap_operation) start = (Inr ?sim, ?w1)"
    by (rule simulate_stats_server)
  have r': "toBigInt (js_or (sim_minResourceFee ?sim) (JStr ''0'')) = Inr 5000"
    using r by simp
  from p1 sim1 r' none
  have "estimateFees fake_config (stats_server (JStr ''5000'') None) swap_operation start =
     (Inr \<lparr>fe_inclusionFee = ''100'', fe_resourceFee = int_toString 5000,
           fe_totalFee = int_toString (100 + 5000)\<rparr>, ?w1)"
    by blast
  then have w4: "estimateFees fake_config (stats_server (JStr ''5000'') None) swap_operation start =
     (Inr \<lparr>fe_inclusionFee = ''100'', fe_resourceFee = ''5000'', fe_totalFee = ''5100''\<rparr>, ?w1)"
    by (simp add: int_toString_examples)
  have reply: "(\<lambda>w. Settles 0 (Inr generic_p95_stats)) (remote GetFeeStats ?w1) = Settles 0 (Inr generic_p95_stats)"
    by simp
  from p2 sim2 r' some reply budget chosen
  have "fst (estimateFees fake_config (stats_server (JStr ''5000'') (Some generic_p95_stats))
                   swap_operation start) =
     Inr \<lparr>fe_inclusionFee = int_toString 250, fe_resourceFee = int_toString 5000,
          fe_totalFee = int_toString (250 + 5000)\<rparr>"
    by blast
  then have w5: "fst (estimateFees fake_config (stats_server (JStr ''5000'') (Some generic_p95_stats))
                   swap_operation start) =
     Inr \<lparr>fe_inclusionFee = ''250'', fe_resourceFee = ''5000'', fe_totalFee = ''5250''\<rparr>"
    by (simp add: int_toString_examples)
  from w1 w2 w3 w4 w5 show ?thesis by simp
qed


subsection \<open>C6: the total is the sum\<close>








subsection \<open>C7: strings that do not decode\<close>

text \<open>
  C7, as stated, fails at the empty string: it cannot be decoded, and the decoder returns
  \<^verbatim>\<open>undefined\<close> for it (the falsy check comes first), not the original string.
\<close>

theorem parseScVal_empty_string_counterexample:
  "decode_base64 fake_sdk [] = None \<and> parseScVal fake_sdk (JStr []) \<noteq> Inr (JStr [])"
  by (simp add: decode_base64_def fake_sdk_def parseScVal_def)

text \<open>
  C7, amended. For every non-empty string: when it cannot be decoded as a base64 ledger
  value the decoder returns the original string unchanged, and when it decodes the decoder
  returns the decoded native value; in neither case does the decoder raise.
\<close>

theorem parseScVal_string:
  "s \<noteq> [] \<Longrightarrow>
     (decode_base64 k s = None \<longrightarrow> parseScVal k (JStr s) = Inr (JStr s)) \<and>
     (\<forall>n. decode_base64 k s = Some n \<longrightarrow> parseScVal k (JStr s) = Inr n)"
  by (auto simp: parseScVal_def decode_base64_def split: sum.splits)

theorem parseScVal_string_witness:
  "''hello'' \<noteq> [] \<and> decode_base64 fake_sdk ''hello'' = None \<and>
   parseScVal fake_sdk (JStr ''hello'') = Inr (JStr ''hello'') \<and>
   decode_base64 fake_sdk ''AAAAAwAAACo='' = Some (JNum 42) \<and>
   parseScVal fake_sdk (JStr ''AAAAAwAAACo='') = Inr (JNum 42)"
  using parseScVal_string [of "''hello''" fake_sdk] parseScVal_string [of "''AAAAAwAAACo=''" fake_sdk]
  by (simp add: decode_base64_def fake_sdk_def)

subsection \<open>C8: the event decoder\<close>

text \<open>
  C8, as stated for every raw event list, fails: the decoder does not return for every
  list. \<^verbatim>\<open>String(event.type || 'unknown')\<close> throws a \<^verbatim>\<open>TypeError\<close> on a \<open>type\<close> that is an object
  with a \<^verbatim>\<open>toString\<close> of its own that is not callable, as in the event \<^verbatim>\<open>{type: {toString: 5}}\<close>;
  and \<^verbatim>\<open>parseScVal\<close> calls the codec on a ledger value outside any \<^verbatim>\<open>try\<close>, so with a codec
  that throws on a ledger value (an address of a type it does not support) an event whose
  data is that value makes the decoder throw.
\<close>

theorem parseEvents_not_total_counterexample:
  "parseEvents fake_sdk [[(''type'', JObj [(''toString'', JNum 5)])]] = Inl (Other not_primitive) \<and>
   parseEvents strict_sdk [[(''type'', JStr ''contract''), (''data'', JScVal (ScVal ''AAAAEgAAAAI=''))]]
     = Inl (Other (ErrorObj ''Unsupported address type''))"
  by (simp add: parseEvents_def parseEvent_def parseScVal_def rec_get_def js_or_def
      fake_sdk_def strict_sdk_def)

text \<open>
  C8, amended. \<^verbatim>\<open>parseEvents\<close> returns exactly for the raw event lists in which every event
  is decodable: \<^verbatim>\<open>String\<close> converts its \<open>type\<close>, and the codec converts every ledger value
  among its topic entries and in its data. When it returns, it has decoded event by event:
  the result has one event per raw event, the \<open>i\<close>-th decoded from the \<open>i\<close>-th alone; its
  \<open>type\<close> is \<^verbatim>\<open>"unknown"\<close> when the raw event has no \<open>type\<close> (or a falsy one) and the string
  of the raw \<open>type\<close> otherwise; its \<open>topics\<close> are \<^verbatim>\<open>undefined\<close> (\<open>None\<close>), not an empty
  list, when the raw topic field (\<^verbatim>\<open>topic || topics\<close>) is not an array, and a list with one
  entry per raw topic when it is.
\<close>

theorem parseEvents_per_event:
  "((\<exists>evs. parseEvents k events = Inr evs) \<longleftrightarrow> list_all (decodable k) events) \<and>
   (parseEvents k events = Inr evs \<longrightarrow>
      length evs = length events \<and>
      (\<forall>i<length events.
         parseEvent k (events ! i) = Inr (evs ! i) \<and>
         (map_of (events ! i) ''type'' = None \<longrightarrow> ev_type (evs ! i) = ''unknown'') \<and>
         (\<not> truthy (rec_get (events ! i) ''type'') \<longrightarrow> ev_type (evs ! i) = ''unknown'') \<and>
         (truthy (rec_get (events ! i) ''type'') \<longrightarrow>
            js_String (rec_get (events ! i) ''type'') = Inr (ev_type (evs ! i))) \<and>
         ((\<forall>ts. js_or (rec_get (events ! i) ''topic'') (rec_get (events ! i) ''topics'') \<noteq> JArr ts) \<longrightarrow>
            ev_topics (evs ! i) = None) \<and>
         (\<forall>ts. js_or (rec_get (events ! i) ''topic'') (rec_get (events ! i) ''topics'') = JArr ts \<longrightarrow>
            (\<exists>ds. ev_topics (evs ! i) = Some ds \<and> length ds = length ts))))"
proof (intro conjI impI)
  show "(\<exists>evs. parseEvents k events = Inr evs) \<longleftrightarrow> list_all (decodable k) events"
    by (rule parseEvents_returns)
next
  assume evs: "parseEvents k events = Inr evs"
  from map_throw_Inr [OF evs [unfolded parseEvents_def]]
  show "length evs = length events" by simp
next
  assume evs: "parseEvents k events = Inr evs"
  from map_throw_Inr [OF evs [unfolded parseEvents_def]]
  have each: "\<forall>i<length events. parseEvent k (events ! i) = Inr (evs ! i)" by simp
  have "parseEvent k (events ! i) = Inr (evs ! i) \<and>
       (map_of (events ! i) ''type'' = None \<longrightarrow> ev_type (evs ! i) = ''unknown'') \<and>
       (\<not> truthy (rec_get (events ! i) ''type'') \<longrightarrow> ev_type (evs ! i) = ''unknown'') \<and>
       (truthy (rec_get (events ! i) ''type'') \<longrightarrow>
          js_String (rec_get (events ! i) ''type'') = Inr (ev_type (evs ! i))) \<and>
       ((\<forall>ts. js_or (rec_get (events ! i) ''topic'') (rec_get (events ! i) ''topics'') \<noteq> JArr ts) \<longrightarrow>
          ev_topics (evs ! i) = None) \<and>
       (\<forall>ts. js_or (rec_get (events ! i) ''topic'') (rec_get (events ! i) ''topics'') = JArr ts \<longrightarrow>
          (\<exists>ds. ev_topics (evs ! i) = Some ds \<and> length ds = length ts))"
    if i: "i < length events" for i
  proof -
    from each i have ev: "parseEvent k (events ! i) = Inr (evs ! i)" by simp
    note f = parseEvent_fields [OF ev]
    have absent: "map_of (events ! i) ''type'' = None \<Longrightarrow> ev_type (evs ! i) = ''unknown''"
      using f(1) by (simp add: rec_get_def js_or_def)
    have falsy: "\<not> truthy (rec_get (events ! i) ''type'') \<Longrightarrow> ev_type (evs ! i) = ''unknown''"
      using f(1) by (simp add: js_or_def)
    have given: "truthy (rec_get (events ! i) ''type'') \<Longrightarrow>
          js_String (rec_get (events ! i) ''type'') = Inr (ev_type (evs ! i))"
      using f(1) by (simp add: js_or_def)
    have arr: "\<exists>ds. ev_topics (evs ! i) = Some ds \<and> length ds = length ts"
      if "js_or (rec_get (events ! i) ''topic'') (rec_get (events ! i) ''topics'') = JArr ts" for ts
      using f(4) [OF that] by (auto dest: map_throw_Inr)
    from ev absent falsy given f(5) arr show ?thesis by blast
  qed
  then show "\<forall>i<length events.
       parseEvent k (events ! i) = Inr (evs ! i) \<and>
       (map_of (events ! i) ''type'' = None \<longrightarrow> ev_type (evs ! i) = ''unknown'') \<and>
       (\<not> truthy (rec_get (events ! i) ''type'') \<longrightarrow> ev_type (evs ! i) = ''unknown'') \<and>
       (truthy (rec_get (events ! i) ''type'') \<longrightarrow>
          js_String (rec_get (events ! i) ''type'') = Inr (ev_type (evs ! i))) \<and>
       ((\<forall>ts. js_or (rec_get (events ! i) ''topic'') (rec_get (events ! i) ''topics'') \<noteq> JArr ts) \<longrightarrow>
          ev_topics (evs ! i) = None) \<and>
       (\<forall>ts. js_or (rec_get (events ! i) ''topic'') (rec_get (events ! i) ''topics'') = JArr ts \<longrightarrow>
          (\<exists>ds. ev_topics (evs ! i) = Some ds \<and> length ds = length ts))"
    by blast
qed

theorem parseEvents_per_event_witness:
  "list_all (decodable strict_sdk)
     [[(''type'', JStr ''contract''), (''contractId'', JStr ''C1''),
       (''topic'', JArr [JStr ''AAAAAwAAACo='', JNum 0, JScVal (ScVal ''AAAAAwAAACo='')]),
       (''data'', JStr ''hello'')],
      [(''contract_id'', JStr ''C1''), (''topics'', JStr ''none''), (''value'', JNum 7)],
      [(''topics'', JArr [])]] \<and>
   parseEvents strict_sdk
     [[(''type'', JStr ''contract''), (''contractId'', JStr ''C1''),
       (''topic'', JArr [JStr ''AAAAAwAAACo='', JNum 0, JScVal (ScVal ''AAAAAwAAACo='')]),
       (''data'', JStr ''hello'')],
      [(''contract_id'', JStr ''C1''), (''topics'', JStr ''none''), (''value'', JNum 7)],
      [(''topics'', JArr [])]] =
   Inr [\<lparr>ev_type = ''contract'', ev_contractId = JStr ''C1'',
         ev_topics = Some [JNum 42, JUndefined, JNum 42], ev_data = JStr ''hello''\<rparr>,
        \<lparr>ev_type = ''unknown'', ev_contractId = JStr ''C1'', ev_topics = None, ev_data = JNum 7\<rparr>,
        \<lparr>ev_type = ''unknown'', ev_contractId = JUndefined, ev_topics = Some [], ev_data = JUndefined\<rparr>] \<and>
   \<not> decodable fake_sdk [(''type'', JObj [(''toString'', JNum 5)])] \<and>
   \<not> decodable strict_sdk [(''type'', JStr ''contract''), (''data'', JScVal (ScVal ''AAAAEgAAAAI=''))]"
proof -
  let ?events = "[[(''type'', JStr ''contract''), (''contractId'', JStr ''C1''),
       (''topic'', JArr [JStr ''AAAAAwAAACo='', JNum 0, JScVal (ScVal ''AAAAAwAAACo='')]),
       (''data'', JStr ''hello'')],
      [(''contract_id'', JStr ''C1''), (''topics'', JStr ''none''), (''value'', JNum 7)],
      [(''topics'', JArr [])]]"
  have dec: "list_all (decodable strict_sdk) ?events"
    by (simp add: decodable_def has_string_def converts_def rec_get_def js_or_def strict_sdk_def
        fake_sdk_def)
  have run: "parseEvents strict_sdk ?events =
   Inr [\<lparr>ev_type = ''contract'', ev_contractId = JStr ''C1'',
         ev_topics = Some [JNum 42, JUndefined, JNum 42], ev_data = JStr ''hello''\<rparr>,
        \<lparr>ev_type = ''unknown'', ev_contractId = JStr ''C1'', ev_topics = None, ev_data = JNum 7\<rparr>,
        \<lparr>ev_type = ''unknown'', ev_contractId = JUndefined, ev_topics = Some [], ev_data = JUndefined\<rparr>]"
    by (simp add: strict_sdk_def fake_sdk_def parseEvents_def parseEvent_def parseScVal_def
        rec_get_def js_or_def)
  have no1: "\<not> decodable fake_sdk [(''type'', JObj [(''toString'', JNum 5)])]"
    by (simp add: decodable_def has_string_def rec_get_def)
  have no2: "\<not> decodable strict_sdk [(''type'', JStr ''contract''), (''data'', JScVal (ScVal ''AAAAEgAAAAI=''))]"
    by (simp add: decodable_def has_string_def converts_def rec_get_def js_or_def strict_sdk_def
        fake_sdk_def)
  from parseEvents_per_event [of strict_sdk ?events] dec
  have "\<exists>evs. parseEvents strict_sdk ?events = Inr evs" by blast
  with dec run no1 no2 show ?thesis by simp
qed



subsection \<open>C9: attribution of the errors\<close>

text \<open>
  C9. The exception that \<^verbatim>\<open>invokeContract\<close> surfaces for a failed simulation carries neither
  the contract nor the method, and neither does the one it surfaces for a confirmation
  that times out: \<^verbatim>\<open>simulateTransaction\<close> and \<^verbatim>\<open>waitForTransaction\<close> throw a
  \<^verbatim>\<open>SorobanException\<close> without them, and the \<^verbatim>\<open>catch\<close> block throws a \<^verbatim>\<open>SorobanException\<close>
  again as it is. An error of another kind, such as the one of an invalid secret, is
  wrapped with both.
\<close>

theorem invokeContract_simulation_error_unattributed:
  "fst (invokeContract fake_config fake_sdk (fake_server (SimulationError ''boom'') (\<lambda>n. success_response) None)
          ''C1'' ''swap'' [JNum 42] secret_options start)
     = Inl (SorobanException ''Simulation failed: boom'' None None NoDetails) \<and>
   exn_contractId (SorobanException ''Simulation failed: boom'' None None NoDetails) = None \<and>
   exn_method (SorobanException ''Simulation failed: boom'' None None NoDetails) = None \<and>
   fst (invokeContract fake_config fake_sdk (polling_server 10) ''C1'' ''swap'' [JNum 42]
          \<lparr>sourceSecret = Some ''SECRET'', sourceAccount = None, timeoutMs = Some 5000\<rparr> start)
     = Inl (SorobanException ''Timed out waiting for Soroban transaction'' None None NoDetails) \<and>
   fst (invokeContract fake_config fake_sdk (polling_server 0) ''C1'' ''swap'' [JNum 42]
          \<lparr>sourceSecret = Some ''BAD'', sourceAccount = None, timeoutMs = None\<rparr> start)
     = Inl (SorobanException ''invalid encoded string'' (Some ''C1'') (Some ''swap'')
              (CauseDetails (ErrorObj ''invalid encoded string'')))"
  by (simp add: failed_simulation_run confirmation_timeout_run invalid_secret_run)

subsection \<open>C10: falsy values decode to undefined\<close>

text \<open>
  C10, as stated, fails in its last part: the data of an event that hold a falsy value do
  not always decode to \<^verbatim>\<open>undefined\<close>. The decoder is given \<^verbatim>\<open>event.data || event.value\<close>, so
  the event \<^verbatim>\<open>{data: 0, value: 7}\<close>, whose data hold the number 0, decodes to the data 7.
\<close>

theorem parseEvent_falsy_data_counterexample:
  "\<not> truthy (rec_get [(''data'', JNum 0), (''value'', JNum 7)] ''data'') \<and>
   parseEvent fake_sdk [(''data'', JNum 0), (''value'', JNum 7)] =
     Inr \<lparr>ev_type = ''unknown'', ev_contractId = JUndefined, ev_topics = None, ev_data = JNum 7\<rparr> \<and>
   JNum 7 \<noteq> JUndefined"
  by (simp add: parseEvent_def parseScVal_def rec_get_def js_or_def)

text \<open>
  C10, amended. For every falsy value (\<^verbatim>\<open>undefined\<close>, \<^verbatim>\<open>null\<close>, the empty string, the number
  0, \<^verbatim>\<open>false\<close>, and also \<^verbatim>\<open>NaN\<close> and \<^verbatim>\<open>0n\<close>) \<^verbatim>\<open>parseScVal\<close> returns \<^verbatim>\<open>undefined\<close>. So a run of
  \<^verbatim>\<open>invokeContract\<close> that returns a result, and whose own simulation (the answer of the
  endpoint to the \<^verbatim>\<open>simulateTransaction\<close> call of this run) previews a falsy return value,
  returns a result whose \<open>result\<close> field is \<^verbatim>\<open>undefined\<close>; in a decoded event a topic entry
  is \<^verbatim>\<open>undefined\<close> when the raw entry is falsy; and the data of a decoded event whose raw
  \<open>data\<close> are falsy are what the raw \<open>value\<close> decodes to: \<^verbatim>\<open>undefined\<close> when the raw \<open>value\<close>
  is falsy (or missing) too.
\<close>

theorem parseScVal_falsy_undefined:
  "(\<not> truthy v \<longrightarrow> parseScVal k v = Inr JUndefined) \<and>
   (invokeContract cfg k srv contractId meth params options w = (Inr res, w') \<and>
    trace w0 = trace w @ es0 \<and>
    trace w' = trace w0 @ (clock w0, SimulateTransaction tx) # es1 \<and>
    rpc_simulateTransaction srv tx (remote (SimulateTransaction tx) w0)
      = Settles d (Inr (SimulationSuccess s)) \<and>
    \<not> truthy (sim_retval s)
      \<longrightarrow> cr_result res = JUndefined) \<and>
   (parseEvent k event = Inr ev \<longrightarrow>
      (\<not> truthy (rec_get event ''data'') \<longrightarrow>
         parseScVal k (rec_get event ''value'') = Inr (ev_data ev) \<and>
         (\<not> truthy (rec_get event ''value'') \<longrightarrow> ev_data ev = JUndefined)) \<and>
      (\<forall>ts i. js_or (rec_get event ''topic'') (rec_get event ''topics'') = JArr ts \<and>
              i < length ts \<and> \<not> truthy (ts ! i) \<longrightarrow>
         (\<exists>ds. ev_topics ev = Some ds \<and> length ds = length ts \<and> ds ! i = JUndefined)))"
proof -
  have decoder: "\<not> truthy v \<longrightarrow> parseScVal k v = Inr JUndefined"
    by (simp add: parseScVal_falsy)
  have preview: "cr_result res = JUndefined"
    if a: "invokeContract cfg k srv contractId meth params options w = (Inr res, w') \<and>
      trace w0 = trace w @ es0 \<and>
      trace w' = trace w0 @ (clock w0, SimulateTransaction tx) # es1 \<and>
      rpc_simulateTransaction srv tx (remote (SimulateTransaction tx) w0)
        = Settles d (Inr (SimulationSuccess s)) \<and>
      \<not> truthy (sim_retval s)"
  proof -
    from a have run: "invokeContract cfg k srv contractId meth params options w = (Inr res, w')"
      and before: "trace w0 = trace w @ es0"
      and call: "trace w' = trace w0 @ (clock w0, SimulateTransaction tx) # es1"
      and answer: "rpc_simulateTransaction srv tx (remote (SimulateTransaction tx) w0)
        = Settles d (Inr (SimulationSuccess s))"
      and falsy: "\<not> truthy (sim_retval s)" by simp_all
    from invokeContract_simulation_step [OF run before call] obtain a kp rs w2 where
      sim: "simulateTransaction cfg srv tx w0 = (rs, w2)" and
      rest: "case rs of
               Inl e \<Rightarrow> Inr res = Inl (rethrow contractId meth e) \<and> w' = w2 \<and> es1 = []
             | Inr s \<Rightarrow>
                 continues w2 w' \<and>
                 (\<exists>r0. submit_and_confirm cfg k srv contractId meth options kp tx s w2 = (r0, w') \<and>
                       Inr res = map_sum (rethrow contractId meth) id r0)"
      by blast
    from rest obtain s' where rs: "rs = Inr s'" by (cases rs) auto
    with rest obtain r0 where
      r0: "submit_and_confirm cfg k srv contractId meth options kp tx s' w2 = (r0, w')"
        "Inr res = map_sum (rethrow contractId meth) id r0"
      by auto
    from r0(2) have "r0 = Inr res" by (cases r0) auto
    with r0(1) have result: "parseScVal k (sim_retval s') = Inr (cr_result res)"
      by (auto dest: submit_and_confirm_result)
    from simulateTransaction_Inr [OF sim [unfolded rs]] answer have "s' = s" by auto
    with result falsy show ?thesis by (simp add: parseScVal_falsy)
  qed
  have events: "(\<not> truthy (rec_get event ''data'') \<longrightarrow>
         parseScVal k (rec_get event ''value'') = Inr (ev_data ev) \<and>
         (\<not> truthy (rec_get event ''value'') \<longrightarrow> ev_data ev = JUndefined)) \<and>
      (\<forall>ts i. js_or (rec_get event ''topic'') (rec_get event ''topics'') = JArr ts \<and>
              i < length ts \<and> \<not> truthy (ts ! i) \<longrightarrow>
         (\<exists>ds. ev_topics ev = Some ds \<and> length ds = length ts \<and> ds ! i = JUndefined))"
    if ev: "parseEvent k event = Inr ev"
  proof -
    have data: "parseScVal k (rec_get event ''value'') = Inr (ev_data ev) \<and>
         (\<not> truthy (rec_get event ''value'') \<longrightarrow> ev_data ev = JUndefined)"
      if "\<not> truthy (rec_get event ''data'')"
      using parseEvent_fields(3) [OF ev] that by (auto simp: js_or_def parseScVal_falsy)
    have topic: "\<exists>ds. ev_topics ev = Some ds \<and> length ds = length ts \<and> ds ! i = JUndefined"
      if t: "js_or (rec_get event ''topic'') (rec_get event ''topics'') = JArr ts \<and>
              i < length ts \<and> \<not> truthy (ts ! i)" for ts i
    proof -
      from parseEvent_fields(4) [OF ev, of ts] t obtain ds where
        ds: "map_throw (parseScVal k) ts = Inr ds" "ev_topics ev = Some ds" by blast
      from map_throw_Inr [OF ds(1)] t have "length ds = length ts" "parseScVal k (ts ! i) = Inr (ds ! i)"
        by simp_all
      with t ds(2) show ?thesis by (simp add: parseScVal_falsy)
    qed
    from data topic show ?thesis by blast
  qed
  from decoder preview events show ?thesis by blast
qed

theorem parseScVal_falsy_undefined_witness:
  "parseScVal fake_sdk JUndefined = Inr JUndefined \<and>
   parseScVal fake_sdk JNull = Inr JUndefined \<and>
   parseScVal fake_sdk (JStr []) = Inr JUndefined \<and>
   parseScVal fake_sdk (JNum 0) = Inr JUndefined \<and>
   parseScVal fake_sdk (JBool False) = Inr JUndefined \<and>
   rpc_simulateTransaction first_zero_server
       (build_transaction fake_config \<lparr>acc_id = ''GSOURCE'', acc_sequence = ''1''\<rparr>
          (InvokeContract ''C1'' ''swap'' [ScVal ''AAAAAwAAACo='']))
       (remote (SimulateTransaction
          (build_transaction fake_config \<lparr>acc_id = ''GSOURCE'', acc_sequence = ''1''\<rparr>
             (InvokeContract ''C1'' ''swap'' [ScVal ''AAAAAwAAACo=''])))
          \<lparr>clock = 0, trace = [(0, GetAccount ''GSOURCE'')]\<rparr>)
     = Settles 0 (Inr (SimulationSuccess \<lparr>sim_minResourceFee = JStr ''5000'', sim_result = Some (JNum 0)\<rparr>)) \<and>
   rpc_simulateTransaction first_zero_server
       (build_transaction fake_config \<lparr>acc_id = ''GSOURCE'', acc_sequence = ''1''\<rparr>
          (InvokeContract ''C1'' ''swap'' [ScVal ''AAAAAwAAACo='']))
       (remote (SimulateTransaction
          (build_transaction fake_config \<lparr>acc_id = ''GSOURCE'', acc_sequence = ''1''\<rparr>
             (InvokeContract ''C1'' ''swap'' [ScVal ''AAAAAwAAACo=''])))
          (snd (invokeContract fake_config fake_sdk first_zero_server ''C1'' ''swap'' [JNum 42]
                  secret_options start)))
     = Settles 0 (Inr (SimulationSuccess \<lparr>sim_minResourceFee = JStr ''5000'', sim_result = Some (JNum 42)\<rparr>)) \<and>
   \<not> truthy (sim_retval \<lparr>sim_minResourceFee = JStr ''5000'', sim_result = Some (JNum 0)\<rparr>) \<and>
   fst (invokeContract fake_config fake_sdk first_zero_server ''C1'' ''swap'' [JNum 42] secret_options start) =
     Inr \<lparr>cr_success = True, cr_hash = Some ''abc123'', cr_status = Some ''SUCCESS'',
          cr_result = JUndefined, cr_events = [], cr_feeCharged = Some ''100'', cr_error = None\<rparr> \<and>
   take 2 (effects_since start
       (snd (invokeContract fake_config fake_sdk first_zero_server ''C1'' ''swap'' [JNum 42] secret_options start)))
     = [GetAccount ''GSOURCE'',
        SimulateTransaction
          (build_transaction fake_config \<lparr>acc_id = ''GSOURCE'', acc_sequence = ''1''\<rparr>
             (InvokeContract ''C1'' ''swap'' [ScVal ''AAAAAwAAACo='']))] \<and>
   parseEvent fake_sdk [(''topic'', JArr [JStr ''hello'', JNum 0]), (''data'', JBool False)] =
     Inr \<lparr>ev_type = ''unknown'', ev_contractId = JUndefined,
          ev_topics = Some [JStr ''hello'', JUndefined], ev_data = JUndefined\<rparr> \<and>
   parseEvent fake_sdk [(''data'', JNull), (''value'', JStr ''AAAAAwAAACo='')] =
     Inr \<lparr>ev_type = ''unknown'', ev_contractId = JUndefined, ev_topics = None, ev_data = JNum 42\<rparr>"
proof -
  let ?tx = "build_transaction fake_config \<lparr>acc_id = ''GSOURCE'', acc_sequence = ''1''\<rparr>
               (InvokeContract ''C1'' ''swap'' [ScVal ''AAAAAwAAACo=''])"
  let ?w0 = "\<lparr>clock = 0, trace = [(0, GetAccount ''GSOURCE'')]\<rparr>"
  let ?res = "\<lparr>cr_success = True, cr_hash = Some ''abc123'', cr_status = Some ''SUCCESS'',
          cr_result = JUndefined, cr_events = [], cr_feeCharged = Some ''100'', cr_error = None\<rparr>"
  let ?s = "\<lparr>sim_minResourceFee = JStr ''5000'', sim_result = Some (JNum 0)\<rparr>"
  have first: "rpc_simulateTransaction first_zero_server ?tx (remote (SimulateTransaction ?tx) ?w0)
     = Settles 0 (Inr (SimulationSuccess ?s))"
    by (simp add: first_zero_server_def scripted_server_def remote_def)
  have later: "rpc_simulateTransaction first_zero_server ?tx
       (remote (SimulateTransaction ?tx)
          (snd (invokeContract fake_config fake_sdk first_zero_server ''C1'' ''swap'' [JNum 42]
                  secret_options start)))
     = Settles 0 (Inr (SimulationSuccess \<lparr>sim_minResourceFee = JStr ''5000'', sim_result = Some (JNum 42)\<rparr>))"
    by (subst first_zero_run) (simp add: first_zero_server_def scripted_server_def remote_def)
  have falsy: "\<not> truthy (sim_retval ?s)"
    by (simp add: sim_retval_def)
  have ev: "parseEvent fake_sdk [(''topic'', JArr [JStr ''hello'', JNum 0]), (''data'', JBool False)] =
     Inr \<lparr>ev_type = ''unknown'', ev_contractId = JUndefined,
          ev_topics = Some [JStr ''hello'', JUndefined], ev_data = JUndefined\<rparr>"
    by (simp add: fake_sdk_def parseEvent_def parseScVal_def rec_get_def js_or_def)
  have ev2: "parseEvent fake_sdk [(''data'', JNull), (''value'', JStr ''AAAAAwAAACo='')] =
     Inr \<lparr>ev_type = ''unknown'', ev_contractId = JUndefined, ev_topics = None, ev_data = JNum 42\<rparr>"
    by (simp add: fake_sdk_def parseEvent_def parseScVal_def rec_get_def js_or_def)
  note inst = parseScVal_falsy_undefined [where k = fake_sdk and srv = first_zero_server
      and cfg = fake_config and contractId = "''C1''" and meth = "''swap''" and params = "[JNum 42]"
      and options = secret_options and w = start and ?w0.0 = ?w0 and tx = ?tx and s = ?s and d = 0
      and ?es0.0 = "[(0, GetAccount ''GSOURCE'')]"]
  have five: "parseScVal fake_sdk JUndefined = Inr JUndefined"
    "parseScVal fake_sdk JNull = Inr JUndefined"
    "parseScVal fake_sdk (JStr []) = Inr JUndefined"
    "parseScVal fake_sdk (JNum 0) = Inr JUndefined"
    "parseScVal fake_sdk (JBool False) = Inr JUndefined"
    using inst [where v = JUndefined] inst [where v = JNull] inst [where v = "JStr []"]
      inst [where v = "JNum 0"] inst [where v = "JBool False"] by simp_all
  let ?es1 = "[(0, PrepareTransaction ?tx),
      (0, SendTransaction (sign \<lparr>kp_secret = ''SECRET'', kp_publicKey = ''GSOURCE''\<rparr> ?tx)),
      (0, GetTransaction ''abc123''), (0, GetTransaction ''abc123'')]"
  let ?w' = "\<lparr>clock = 0,
      trace = (0, GetAccount ''GSOURCE'') # (0, SimulateTransaction ?tx) # ?es1\<rparr>"
  have run: "invokeContract fake_config fake_sdk first_zero_server ''C1'' ''swap'' [JNum 42]
      secret_options start = (Inr ?res, ?w')"
    by (simp add: first_zero_run)
  have before: "trace ?w0 = trace start @ [(0, GetAccount ''GSOURCE'')]"
    and call: "trace ?w' = trace ?w0 @ (clock ?w0, SimulateTransaction ?tx) # ?es1"
    by (simp_all add: start_def)
  from inst [where res = ?res and w' = ?w' and ?es1.0 = ?es1] run before call first falsy
  have "cr_result ?res = JUndefined" by blast
  with five first later falsy ev ev2 first_zero_run show ?thesis
    by (simp add: effects_since_def start_def)
qed
end
